theory Spec2Isabelle
  imports Complex_Main
begin

section \<open>The transposed ensemble Kalman filter of econsieve/tenkf.py\<close>

text \<open>
  The class \<^verbatim>\<open>TEnKF\<close> has a constructor, the forward pass \<^verbatim>\<open>batch_filter\<close> and the
  backward pass \<^verbatim>\<open>rts_smoother\<close>. Arrays hold floating-point numbers in the source; the
  model computes with \<^typ>\<open>real\<close>, so rounding is not represented. A two-dimensional
  array is the list of its rows, a three-dimensional one the list of its slices along the
  first axis. The operations below are total; where numpy raises for operands of unequal
  shape the theorems state the shapes they rely on.
\<close>

subsection \<open>Arrays\<close>

type_synonym vec = "real list"
type_synonym mat = "real list list"

datatype error =
    TypeError
  | ValueError
  | AttributeError
  | IndexError
  | LinAlgError
  | FloatNaN  \<comment> \<open>no exception: the point where numpy's arithmetic produces NaN or inf\<close>

definition bind_err :: "error + 'a \<Rightarrow> ('a \<Rightarrow> error + 'b) \<Rightarrow> error + 'b" where
  "bind_err m f = (case m of Inl e \<Rightarrow> Inl e | Inr v \<Rightarrow> f v)"

definition is_mat :: "nat \<Rightarrow> nat \<Rightarrow> mat \<Rightarrow> bool" where
  "is_mat d n A = (length A = d \<and> list_all (\<lambda>r. length r = n) A)"

definition is_hist :: "nat \<Rightarrow> nat \<Rightarrow> nat \<Rightarrow> mat list \<Rightarrow> bool" where
  "is_hist t d n H = (length H = t \<and> list_all (is_mat d n) H)"

definition ncols :: "mat \<Rightarrow> nat" where
  "ncols A = (case A of [] \<Rightarrow> 0 | r # _ \<Rightarrow> length r)"

definition col :: "mat \<Rightarrow> nat \<Rightarrow> vec" where
  "col A j = map (\<lambda>r. r ! j) A"

text \<open>\<^verbatim>\<open>A.T\<close>\<close>
definition tr :: "mat \<Rightarrow> mat" where
  "tr A = map (col A) [0..<ncols A]"

definition dot :: "vec \<Rightarrow> vec \<Rightarrow> real" where
  "dot u v = sum_list (map2 (*) u v)"

text \<open>\<^verbatim>\<open>A @ B\<close>\<close>
definition matmul :: "mat \<Rightarrow> mat \<Rightarrow> mat" where
  "matmul A B = map (\<lambda>r. map (dot r) (tr B)) A"

definition vec_add :: "vec \<Rightarrow> vec \<Rightarrow> vec" where
  "vec_add u v = map2 (+) u v"

definition vec_sub :: "vec \<Rightarrow> vec \<Rightarrow> vec" where
  "vec_sub u v = map2 (-) u v"

definition mat_add :: "mat \<Rightarrow> mat \<Rightarrow> mat" where
  "mat_add A B = map2 vec_add A B"

definition mat_sub :: "mat \<Rightarrow> mat \<Rightarrow> mat" where
  "mat_sub A B = map2 vec_sub A B"

definition mat_scale :: "real \<Rightarrow> mat \<Rightarrow> mat" where
  "mat_scale c A = map (map ((*) c)) A"

text \<open>\<^verbatim>\<open>A @ v\<close> for a vector \<open>v\<close>\<close>
definition mat_vec :: "mat \<Rightarrow> vec \<Rightarrow> vec" where
  "mat_vec A v = map (\<lambda>r. dot r v) A"

text \<open>\<^verbatim>\<open>np.zeros(n)\<close>, \<^verbatim>\<open>np.ones(n)\<close>, \<^verbatim>\<open>np.eye(n)\<close>, \<^verbatim>\<open>np.outer(u, v)\<close>\<close>
definition np_zeros :: "nat \<Rightarrow> vec" where
  "np_zeros n = replicate n 0"

definition np_ones :: "nat \<Rightarrow> vec" where
  "np_ones n = replicate n 1"

definition np_eye :: "nat \<Rightarrow> mat" where
  "np_eye n = map (\<lambda>i. map (\<lambda>j. if i = j then 1 else 0) [0..<n]) [0..<n]"

definition np_outer :: "vec \<Rightarrow> vec \<Rightarrow> mat" where
  "np_outer u v = map (\<lambda>a. map (\<lambda>b. a * b) v) u"

text \<open>
  \<^verbatim>\<open>np.empty((t, d, n))\<close> allocates without initialising: an entry that the source has not
  written holds an arbitrary number. The model fills the array with zeros, and no claim
  below is about an entry that the source has not written first.
\<close>
definition np_empty :: "nat \<Rightarrow> nat \<Rightarrow> nat \<Rightarrow> mat list" where
  "np_empty t d n = replicate t (replicate d (replicate n 0))"

text \<open>
  \<^verbatim>\<open>np.rollaxis(H, 2)\<close> of a \<open>t \<times> d \<times> n\<close> array: the last axis becomes the first, entry
  \<open>(k, s, j)\<close> of the result is entry \<open>(s, j, k)\<close> of \<open>H\<close>. The size \<open>n\<close> of the last axis is
  part of the array's shape in numpy and an argument here.
\<close>
definition rollaxis2 :: "nat \<Rightarrow> mat list \<Rightarrow> mat list" where
  "rollaxis2 n H = map (\<lambda>k. map (\<lambda>X. map (\<lambda>r. r ! k) X) H) [0..<n]"

subsection \<open>The object\<close>

text \<open>
  The attributes of a \<^verbatim>\<open>TEnKF\<close> object. Those that \<^verbatim>\<open>__init__\<close> does not set
  (\<^verbatim>\<open>Z\<close>, \<^verbatim>\<open>Xs\<close>, \<^verbatim>\<open>X_priors\<close>, \<^verbatim>\<open>X_bars\<close>, \<^verbatim>\<open>X_bar_priors\<close>, \<^verbatim>\<open>ll\<close>, \<^verbatim>\<open>Ss\<close>) are optional:
  reading one that is \<open>None\<close> is Python's \<^verbatim>\<open>AttributeError\<close>. The transition function
  \<^verbatim>\<open>t_func\<close> is taken with the \<^verbatim>\<open>[0]\<close> that \<^verbatim>\<open>batch_filter\<close> applies to its result; the
  observation function \<^verbatim>\<open>o_func\<close> maps an \<open>n \<times> dim_x\<close> array to an \<open>n \<times> dim_z\<close> one. Both are
  functions of their arguments' values: they change no array and return a new one, not a
  view of an argument (the in-place update \<^verbatim>\<open>X += ...\<close> of line 102 would otherwise change
  \<^verbatim>\<open>Y\<close> as well, before line 111 reads it).
\<close>
record tenkf =
  dim_x :: nat
  dim_z :: nat
  t_func :: "vec \<Rightarrow> vec \<Rightarrow> vec"
  o_func :: "mat \<Rightarrow> mat"
  ens_N :: nat
  seed :: "nat option"
  cov_R :: mat
  cov_Q :: mat
  cov_P :: mat
  mean_x :: vec
  obs_Z :: "mat option"
  Xs :: "mat list option"
  X_priors :: "mat list option"
  X_bars :: "mat list option"
  X_bar_priors :: "mat list option"
  ll :: "real option"
  Ss :: "mat list option"

text \<open>Reading an attribute, and indexing an array along its first axis.\<close>
definition getattr :: "'a option \<Rightarrow> error + 'a" where
  "getattr a = (case a of None \<Rightarrow> Inl AttributeError | Some v \<Rightarrow> Inr v)"

definition index0 :: "'a list \<Rightarrow> nat \<Rightarrow> error + 'a" where
  "index0 xs i = (if i < length xs then Inr (xs ! i) else Inl IndexError)"

text \<open>\<^verbatim>\<open>xs[-1]\<close>\<close>
definition index_last :: "'a list \<Rightarrow> error + 'a" where
  "index_last xs = (if xs = [] then Inl IndexError else Inr (last xs))"

subsection \<open>rts_smoother\<close>

text \<open>
  One pass of the loop body at index \<open>i\<close>, with the running smoothed ensemble \<open>S\<close>:
  \<^verbatim>\<open>J = self.X_bars[i] @ tinv(self.X_bar_priors[i+1])\<close>,
  \<^verbatim>\<open>S = self.Xs[i] + J @ (S - self.X_priors[i+1])\<close>.
  The generalised inverse \<^verbatim>\<open>tinv\<close> comes from the package grgrlib and is a parameter.
\<close>
definition smoother_step :: "(mat \<Rightarrow> mat) \<Rightarrow> tenkf \<Rightarrow> nat \<Rightarrow> mat \<Rightarrow> error + mat" where
  "smoother_step tinv self i S =
     bind_err (getattr (X_bars self)) (\<lambda>bars.
     bind_err (index0 bars i) (\<lambda>bar_i.
     bind_err (getattr (X_bar_priors self)) (\<lambda>bar_priors.
     bind_err (index0 bar_priors (i + 1)) (\<lambda>bar_prior.
     let J = matmul bar_i (tinv bar_prior) in
     bind_err (getattr (Xs self)) (\<lambda>xs.
     bind_err (index0 xs i) (\<lambda>x_i.
     bind_err (getattr (X_priors self)) (\<lambda>priors.
     bind_err (index0 priors (i + 1)) (\<lambda>prior.
     Inr (mat_add x_i (matmul J (mat_sub S prior)))))))))))"

text \<open>
  \<^verbatim>\<open>for i in reversed(range(k))\<close>: the indices \<open>k - 1\<close>, ..., \<open>0\<close> in this order, each pass
  storing its result with \<^verbatim>\<open>Ss[i,:,:] = S\<close>.
\<close>
fun smoother_loop :: "(mat \<Rightarrow> mat) \<Rightarrow> tenkf \<Rightarrow> nat \<Rightarrow> mat \<Rightarrow> mat list \<Rightarrow> error + (mat \<times> mat list)" where
  "smoother_loop tinv self 0 S Ss_buf = Inr (S, Ss_buf)"
| "smoother_loop tinv self (Suc i) S Ss_buf =
     bind_err (smoother_step tinv self i S) (\<lambda>S'.
     smoother_loop tinv self i S' (Ss_buf[i := S']))"

text \<open>
  \<^verbatim>\<open>rts_smoother(self, means=None, covs=None, rcond=1e-14)\<close>. The result is the returned
  array together with the object, whose attribute \<^verbatim>\<open>Ss\<close> is set.
\<close>
definition rts_smoother ::
  "(mat \<Rightarrow> mat) \<Rightarrow> tenkf \<Rightarrow> mat list option \<Rightarrow> mat list option \<Rightarrow> real \<Rightarrow> error + (mat list \<times> tenkf)" where
  "rts_smoother tinv self means covs rcond =
     bind_err (getattr (Xs self)) (\<lambda>xs.
     bind_err (index_last xs) (\<lambda>S.
     let Ss_buf = xs in
     bind_err (smoother_loop tinv self (length xs - 1) S Ss_buf) (\<lambda>(S', Ss_buf').
     Inr (rollaxis2 (ens_N self) Ss_buf', self\<lparr>Ss := Some Ss_buf'\<rparr>))))"


subsection \<open>Library functions that batch_filter calls\<close>

text \<open>\<^verbatim>\<open>A / c\<close> and \<^verbatim>\<open>np.mean(A, axis=1)\<close>\<close>
definition mat_div :: "mat \<Rightarrow> real \<Rightarrow> mat" where
  "mat_div A c = map (map (\<lambda>a. a / c)) A"

definition row_mean :: "vec \<Rightarrow> real" where
  "row_mean r = sum_list r / real (length r)"

text \<open>
  \<^verbatim>\<open>np.cov(Y)\<close>: the rows of \<open>Y\<close> are the variables, its columns the observations. numpy
  subtracts each row's mean, multiplies the result with its transpose and scales by
  \<open>1 / (n - 1)\<close>, \<open>n\<close> the number of columns. With \<open>n \<le> 1\<close> it warns, divides by zero and
  returns NaN without raising. The real numbers have no NaN: the model stops there with
  \<open>FloatNaN\<close>, and what the source goes on to compute from the NaN is not modelled.
\<close>
definition np_cov :: "mat \<Rightarrow> error + mat" where
  "np_cov Y =
     (let n = ncols Y in
      if n \<le> 1 then Inl FloatNaN
      else
        let Yc = map (\<lambda>r. map (\<lambda>a. a - row_mean r) r) Y
        in Inr (mat_scale (1 / (real n - 1)) (matmul Yc (tr Yc))))"

text \<open>
  \<^verbatim>\<open>numpy.linalg.inv\<close> in exact arithmetic: \<^verbatim>\<open>LinAlgError\<close> for an array that is not square
  or is singular, the inverse otherwise. The determinant is expanded along the first row,
  the inverse is the transposed matrix of cofactors over the determinant.
\<close>
definition del_nth :: "nat \<Rightarrow> 'a list \<Rightarrow> 'a list" where
  "del_nth i xs = take i xs @ drop (Suc i) xs"

function det :: "mat \<Rightarrow> real" where
  "det [] = 1"
| "det (r # A) =
     sum_list (map (\<lambda>j. (- 1) ^ j * r ! j * det (map (del_nth j) A)) [0..<length r])"
  by pat_completeness auto
termination
  by (relation "measure length") auto

definition nl_inv :: "mat \<Rightarrow> error + mat" where
  "nl_inv A =
     (let n = length A; d = det A in
      if is_mat n n A \<and> d \<noteq> 0
      then Inr (map (\<lambda>i. map (\<lambda>j. (- 1) ^ (i + j) * det (map (del_nth i) (del_nth j A)) / d)
                             [0..<n]) [0..<n])
      else Inl LinAlgError)"

text \<open>
  \<^verbatim>\<open>bool(A)\<close> for an array, which Python evaluates for \<^verbatim>\<open>A or ...\<close>: an array of one
  element has the truth value of the element, an empty one is false (with a deprecation
  warning in the numpy releases of the repository's time), any other raises
  \<^verbatim>\<open>ValueError\<close> (the truth value of an array with more than one element is ambiguous).
\<close>
definition ndarray_bool :: "mat \<Rightarrow> error + bool" where
  "ndarray_bool A =
     (case concat A of
        [] \<Rightarrow> Inr False
      | [a] \<Rightarrow> Inr (a \<noteq> 0)
      | _ \<Rightarrow> Inl ValueError)"

subsection \<open>Collaborators of batch_filter\<close>

text \<open>
  The sampler \<^verbatim>\<open>self.multivariate(mean, cov, size)\<close> draws from numpy's global random
  state, which the model passes explicitly (a number stands for the state). It is called
  with \<^verbatim>\<open>size=(t, n)\<close>, giving a \<open>t \<times> n \<times> dim\<close> array, and with \<^verbatim>\<open>size=n\<close>, giving an
  \<open>n \<times> dim\<close> array: one field for each. \<^verbatim>\<open>np.random.seed\<close> sets the state. \<^verbatim>\<open>logpdf\<close> is
  imported from the module \<^verbatim>\<open>stats\<close> of the package.
\<close>
type_synonym rng = nat

record collab =
  multivariate :: "rng \<Rightarrow> vec \<Rightarrow> mat \<Rightarrow> nat \<times> nat \<Rightarrow> error + (mat list \<times> rng)"
  multivariate1 :: "rng \<Rightarrow> vec \<Rightarrow> mat \<Rightarrow> nat \<Rightarrow> error + (mat \<times> rng)"
  np_random_seed :: "nat \<Rightarrow> rng"
  logpdf :: "vec \<Rightarrow> vec \<Rightarrow> mat \<Rightarrow> real"

subsection \<open>The constructor\<close>

text \<open>
  \<^verbatim>\<open>__init__(self, N, dim_x=None, dim_z=None, fx=None, hx=None, rule=None, seed=None)\<close>.
  \<^verbatim>\<open>rule\<close> only selects the sampling rule of the sampler, which is a parameter of the
  model. \<^verbatim>\<open>np.eye(None)\<close> raises \<^verbatim>\<open>TypeError\<close>; \<^verbatim>\<open>R\<close> is built first. Nothing else can fail,
  and \<open>N\<close> is stored as it comes.
\<close>
definition TEnKF_init ::
  "nat \<Rightarrow> nat option \<Rightarrow> nat option \<Rightarrow> (vec \<Rightarrow> vec \<Rightarrow> vec) \<Rightarrow> (mat \<Rightarrow> mat) \<Rightarrow> nat option
     \<Rightarrow> error + tenkf" where
  "TEnKF_init N dx dz fx hx sd =
     (case dz of None \<Rightarrow> Inl TypeError | Some m \<Rightarrow>
      (case dx of None \<Rightarrow> Inl TypeError | Some d \<Rightarrow>
        Inr \<lparr>dim_x = d, dim_z = m, t_func = fx, o_func = hx, ens_N = N, seed = sd,
             cov_R = np_eye m, cov_Q = np_eye d, cov_P = np_eye d, mean_x = np_zeros d,
             obs_Z = None, Xs = None, X_priors = None, X_bars = None, X_bar_priors = None,
             ll = None, Ss = None\<rparr>))"


subsection \<open>batch_filter\<close>

text \<open>\<^verbatim>\<open>I2 = np.eye(N) - np.outer(I1, I1)/N\<close>\<close>
definition centering :: "nat \<Rightarrow> mat" where
  "centering n = mat_sub (np_eye n) (mat_div (np_outer (np_ones n) (np_ones n)) (real n))"

text \<open>\<^verbatim>\<open>X[:, i] = v\<close>\<close>
definition set_col :: "mat \<Rightarrow> nat \<Rightarrow> vec \<Rightarrow> mat" where
  "set_col X i v = map2 (\<lambda>r a. r[i := a]) X v"

text \<open>
  The predict loop: \<^verbatim>\<open>for i in range(X.shape[1]): X[:, i] = self.t_func(X[:, i], epss[nz, i])[0]\<close>,
  with \<open>eps_nz\<close> for \<^verbatim>\<open>epss[nz]\<close>.
\<close>
definition predict :: "tenkf \<Rightarrow> mat \<Rightarrow> mat \<Rightarrow> mat" where
  "predict self eps_nz X =
     fold (\<lambda>i X'. set_col X' i (t_func self (col X' i) (eps_nz ! i))) [0..<ncols X] X"

text \<open>
  The update, lines 98 to 102, for the predicted ensemble \<open>X\<close>, its image \<open>Y\<close> under the
  observation function, the observation \<open>z\<close> and \<open>mus_nz\<close> for \<^verbatim>\<open>mus[nz]\<close>. It returns the
  updated ensemble with \<^verbatim>\<open>X_bar\<close> and \<^verbatim>\<open>S\<close>, which the rest of the step uses.
  Python's \<^verbatim>\<open>@\<close> associates to the left.
\<close>
definition enkf_update ::
  "nat \<Rightarrow> mat \<Rightarrow> vec \<Rightarrow> mat \<Rightarrow> vec \<Rightarrow> mat \<Rightarrow> mat \<Rightarrow> mat \<Rightarrow> error + (mat \<times> mat \<times> mat)" where
  "enkf_update N R I1 I2 z mus_nz X Y =
     (let X_bar = matmul X I2;
          Y_bar = matmul Y I2;
          ZZ = np_outer z I1
      in bind_err (np_cov Y) (\<lambda>C.
         let S = mat_add C R in
         bind_err (nl_inv (mat_scale (real N - 1) S)) (\<lambda>W.
         Inr (mat_add X (matmul (matmul (matmul X_bar (tr Y_bar)) W)
                                (mat_sub (mat_sub ZZ Y) (tr mus_nz))),
              X_bar, S))))"

text \<open>\<^verbatim>\<open>H[nz, :, :] = M\<close> for an attribute \<open>H\<close> that the same call has allocated.\<close>
definition set_slice :: "mat list option \<Rightarrow> nat \<Rightarrow> mat \<Rightarrow> mat list option" where
  "set_slice H nz M = map_option (\<lambda>h. h[nz := M]) H"

text \<open>
  One pass of the time loop, at index \<open>nz\<close> with observation \<open>z\<close>. The loop's state is the
  ensemble \<open>X\<close>, the accumulated \<open>ll\<close> and the object. \<open>N\<close>, \<open>R\<close> and \<^verbatim>\<open>_dim_z\<close> are read
  from the object: the source reads them into local variables before the loop, and the loop
  does not assign them.
\<close>
definition batch_step ::
  "collab \<Rightarrow> bool \<Rightarrow> bool \<Rightarrow> vec \<Rightarrow> mat \<Rightarrow> mat list \<Rightarrow> mat list \<Rightarrow> nat \<Rightarrow> vec
     \<Rightarrow> mat \<times> real \<times> tenkf \<Rightarrow> error + (mat \<times> real \<times> tenkf)" where
  "batch_step env store calc_ll I1 I2 mus epss nz z st =
     (case st of (X, ll_acc, self) \<Rightarrow>
      let X1 = predict self (epss ! nz) X;
          Y = tr (o_func self (tr X1));
          self1 = (if store then self\<lparr>X_priors := set_slice (X_priors self) nz X1\<rparr> else self)
      in bind_err (enkf_update (ens_N self) (cov_R self) I1 I2 z (mus ! nz) X1 Y)
           (\<lambda>(X2, X_bar, S).
         let self2 =
               (if store
                then self1\<lparr>X_bar_priors := set_slice (X_bar_priors self1) nz X_bar,
                           X_bars := set_slice (X_bars self1) nz (matmul X2 I2),
                           Xs := set_slice (Xs self1) nz X2\<rparr>
                else self1)
         in if calc_ll
            then
              let z_mean = map row_mean Y;
                  y = vec_sub z z_mean
              in Inr (X2, ll_acc + logpdf env y (np_zeros (dim_z self)) S, self2)
            else Inr (X2, ll_acc, self2\<lparr>Xs := set_slice (Xs self2) nz X2\<rparr>)))"

text \<open>\<^verbatim>\<open>for nz, z in enumerate(Z)\<close>, from index \<open>nz\<close> on.\<close>
fun filter_loop ::
  "collab \<Rightarrow> bool \<Rightarrow> bool \<Rightarrow> vec \<Rightarrow> mat \<Rightarrow> mat list \<Rightarrow> mat list \<Rightarrow> nat \<Rightarrow> mat
     \<Rightarrow> mat \<times> real \<times> tenkf \<Rightarrow> error + (mat \<times> real \<times> tenkf)" where
  "filter_loop env store calc_ll I1 I2 mus epss nz [] st = Inr st"
| "filter_loop env store calc_ll I1 I2 mus epss nz (z # zs) st =
     bind_err (batch_step env store calc_ll I1 I2 mus epss nz z st)
       (filter_loop env store calc_ll I1 I2 mus epss (Suc nz) zs)"

text \<open>
  \<^verbatim>\<open>seed or self.seed\<close>: \<^verbatim>\<open>None\<close> and \<open>0\<close> are false. \<^verbatim>\<open>np.random.seed\<close> is called when
  the result is true.
\<close>
definition seed_or :: "nat option \<Rightarrow> nat option \<Rightarrow> nat option" where
  "seed_or a b = (case a of None \<Rightarrow> b | Some n \<Rightarrow> if n = 0 then b else Some n)"

text \<open>
  The three calls of the sampler, lines 79 to 81. The last is
  \<^verbatim>\<open>X = init_states or self.multivariate(mean=self.x, cov=P, size=N).T\<close>.
\<close>
definition draw_mus :: "collab \<Rightarrow> tenkf \<Rightarrow> rng \<Rightarrow> mat \<Rightarrow> error + (mat list \<times> rng)" where
  "draw_mus env self g Z =
     multivariate env g (np_zeros (dim_z self)) (cov_R self) (length Z, ens_N self)"

definition draw_epss :: "collab \<Rightarrow> tenkf \<Rightarrow> rng \<Rightarrow> mat \<Rightarrow> error + (mat list \<times> rng)" where
  "draw_epss env self g Z =
     multivariate env g (np_zeros (dim_z self)) (cov_Q self) (length Z, ens_N self)"

definition initial_ensemble :: "collab \<Rightarrow> tenkf \<Rightarrow> rng \<Rightarrow> mat option \<Rightarrow> error + (mat \<times> rng)" where
  "initial_ensemble env self g init_states =
     (let sampled =
            bind_err (multivariate1 env g (mean_x self) (cov_P self) (ens_N self))
              (\<lambda>(M, g'). Inr (tr M, g'))
      in case init_states of
           None \<Rightarrow> sampled
         | Some A \<Rightarrow>
             bind_err (ndarray_bool A) (\<lambda>b. if b then Inr (A, g) else sampled))"

datatype filter_result = LogLik real | History "mat list"

text \<open>
  Lines 57 to 68: \<^verbatim>\<open>self.Z = Z\<close>, and the four history arrays when \<^verbatim>\<open>store\<close> is set.
\<close>
definition allocate :: "tenkf \<Rightarrow> mat \<Rightarrow> bool \<Rightarrow> tenkf" where
  "allocate self Z store =
     (let self1 = self\<lparr>obs_Z := Some Z\<rparr>;
          fresh = np_empty (length Z) (dim_x self1) (ens_N self1)
      in if store
         then self1\<lparr>Xs := Some fresh, X_priors := Some fresh, X_bars := Some fresh,
                    X_bar_priors := Some fresh\<rparr>
         else self1)"

text \<open>Lines 72 and 73: \<^verbatim>\<open>if seed or self.seed: np.random.seed(seed or self.seed)\<close>.\<close>
definition reseed :: "collab \<Rightarrow> tenkf \<Rightarrow> rng \<Rightarrow> nat option \<Rightarrow> rng" where
  "reseed env self g seed_arg =
     (case seed_or seed_arg (seed self) of
        None \<Rightarrow> g
      | Some n \<Rightarrow> if n = 0 then g else np_random_seed env n)"

text \<open>
  \<^verbatim>\<open>batch_filter(self, Z, init_states=None, seed=None, store=False, calc_ll=False)\<close>,
  with the random state before the call; it gives the returned value, the object and the
  random state after the call. Line 83 allocates \<^verbatim>\<open>self.Xs\<close> once more, whatever \<^verbatim>\<open>store\<close>
  is.
\<close>
definition batch_filter ::
  "collab \<Rightarrow> tenkf \<Rightarrow> rng \<Rightarrow> mat \<Rightarrow> mat option \<Rightarrow> nat option \<Rightarrow> bool \<Rightarrow> bool
     \<Rightarrow> error + (filter_result \<times> tenkf \<times> rng)" where
  "batch_filter env self g Z init_states seed_arg store calc_ll =
     (let N = ens_N self;
          I1 = np_ones N;
          I2 = centering N;
          self2 = allocate self Z store;
          g1 = reseed env self2 g seed_arg
      in bind_err (draw_mus env self2 g1 Z) (\<lambda>(mus, g2).
         bind_err (draw_epss env self2 g2 Z) (\<lambda>(epss, g3).
         bind_err (initial_ensemble env self2 g3 init_states) (\<lambda>(X, g4).
         let self3 = self2\<lparr>Xs := Some (np_empty (length Z) (dim_x self) N)\<rparr> in
         bind_err (filter_loop env store calc_ll I1 I2 mus epss 0 Z (X, 0, self3))
           (\<lambda>(X', ll', self4).
         if calc_ll then Inr (LogLik ll', self4\<lparr>ll := Some ll'\<rparr>, g4)
         else bind_err (getattr (Xs self4)) (\<lambda>H.
              Inr (History (rollaxis2 N H), self4, g4)))))))"

subsection \<open>The specification's formulas\<close>

text \<open>
  The ensemble anomaly: every row (one coordinate across the \<open>n\<close> members) minus its own
  mean, so that every member has the ensemble mean subtracted.
\<close>
definition center :: "mat \<Rightarrow> mat" where
  "center A = map (\<lambda>r. map (\<lambda>a. a - row_mean r) r) A"

text \<open>The sample covariance of an ensemble of \<open>n\<close> members, normalised by \<open>n - 1\<close>.\<close>
definition sample_cov :: "nat \<Rightarrow> mat \<Rightarrow> mat" where
  "sample_cov n Y = mat_scale (1 / (real n - 1)) (matmul (center Y) (tr (center Y)))"

text \<open>The gain: centered states times transposed centered observations times \<open>W\<close>, the inverse of \<open>(n - 1) S\<close>.\<close>
definition kalman_gain :: "mat \<Rightarrow> mat \<Rightarrow> mat \<Rightarrow> mat" where
  "kalman_gain X Y W = matmul (matmul (center X) (tr (center Y))) W"


text \<open>
  The backward recursion as the specification words it: the smoothed ensemble at the last
  step is the filter's posterior ensemble, and at an earlier step \<open>i\<close> it is
  \<open>posterior i + J (smoothed (i + 1) - prior (i + 1))\<close> with the gain
  \<open>J = posterior anomaly i \<cdot> pseudo-inverse (prior anomaly (i + 1))\<close>.
\<close>
function rts_spec ::
  "(mat \<Rightarrow> mat) \<Rightarrow> mat list \<Rightarrow> mat list \<Rightarrow> mat list \<Rightarrow> mat list \<Rightarrow> nat \<Rightarrow> mat" where
  "rts_spec pinv posterior prior post_anomaly prior_anomaly i =
     (if length posterior \<le> Suc i then last posterior
      else mat_add (posterior ! i)
             (matmul (matmul (post_anomaly ! i) (pinv (prior_anomaly ! Suc i)))
                (mat_sub (rts_spec pinv posterior prior post_anomaly prior_anomaly (Suc i))
                         (prior ! Suc i))))"
  by pat_completeness auto
termination
  by (relation "measure (\<lambda>(pinv, posterior, prior, post_anomaly, prior_anomaly, i).
        length posterior - i)") auto

subsection \<open>Sample collaborators\<close>

text \<open>
  Concrete collaborators on which the model is evaluated. The sampler performs the check of
  \<^verbatim>\<open>np.random.multivariate_normal\<close>, which raises \<^verbatim>\<open>ValueError\<close> unless mean and covariance
  have the same length, and then returns the mean shifted by a fixed sequence of numbers
  that it reads from the position given by the random state. The transition halves
  every coordinate of the state and adds the sum of the noise vector (\<open>x / 2 + eps\<close> in one
  dimension), the observation function returns a copy of its argument, the log-density is
  the Gaussian one,
  and the generalised inverse is the Moore-Penrose inverse \<open>A\<^sup>T (A A\<^sup>T)\<^sup>-\<^sup>1\<close> of a matrix of
  full row rank (the zero matrix of the transposed shape for the zero row).
\<close>
definition sample_noise :: "nat \<Rightarrow> real" where
  "sample_noise k = real (k mod 4) - 1"

definition sample_vec :: "rng \<Rightarrow> vec \<Rightarrow> vec" where
  "sample_vec g mean = map (\<lambda>j. mean ! j + sample_noise (g + j)) [0..<length mean]"

definition sample_multivariate :: "rng \<Rightarrow> vec \<Rightarrow> mat \<Rightarrow> nat \<times> nat \<Rightarrow> error + (mat list \<times> rng)" where
  "sample_multivariate g mean cov size2 =
     (case size2 of (t, n) \<Rightarrow>
      if length mean \<noteq> length cov then Inl ValueError
      else Inr (map (\<lambda>s. map (\<lambda>i. sample_vec (g + (s * n + i) * length mean) mean) [0..<n])
                  [0..<t],
                g + t * n * length mean))"

definition sample_multivariate1 :: "rng \<Rightarrow> vec \<Rightarrow> mat \<Rightarrow> nat \<Rightarrow> error + (mat \<times> rng)" where
  "sample_multivariate1 g mean cov n =
     (if length mean \<noteq> length cov then Inl ValueError
      else Inr (map (\<lambda>i. sample_vec (g + i * length mean) mean) [0..<n],
                g + n * length mean))"

definition gauss_logpdf :: "vec \<Rightarrow> vec \<Rightarrow> mat \<Rightarrow> real" where
  "gauss_logpdf y mean cov =
     (let d = vec_sub y mean;
          W = (case nl_inv cov of Inl e \<Rightarrow> [] | Inr V \<Rightarrow> V)
      in - (real (length y) * ln (2 * pi) + ln (det cov) + dot d (mat_vec W d)) / 2)"

definition sample_env :: collab where
  "sample_env = \<lparr>multivariate = sample_multivariate, multivariate1 = sample_multivariate1,
                 np_random_seed = (\<lambda>n. n), logpdf = gauss_logpdf\<rparr>"

definition half_plus_noise :: "vec \<Rightarrow> vec \<Rightarrow> vec" where
  "half_plus_noise x eps = map (\<lambda>a. a / 2 + sum_list eps) x"

definition observe_all :: "mat \<Rightarrow> mat" where
  "observe_all M = M"

definition pinv_rows :: "mat \<Rightarrow> mat" where
  "pinv_rows A =
     (case nl_inv (matmul A (tr A)) of
        Inl e \<Rightarrow> map (\<lambda>r. map (\<lambda>a. 0) r) (tr A)
      | Inr V \<Rightarrow> matmul (tr A) V)"


text \<open>
  The object that \<^verbatim>\<open>TEnKF(2, dim_x=1, dim_z=1, fx=..., hx=...)\<close> constructs, and the object
  with a two-dimensional state and one observed coordinate.
\<close>
definition sample_obj :: tenkf where
  "sample_obj = \<lparr>dim_x = 1, dim_z = 1, t_func = half_plus_noise, o_func = observe_all,
      ens_N = 2, seed = None, cov_R = [[1]], cov_Q = [[1]], cov_P = [[1]], mean_x = [0],
      obs_Z = None, Xs = None, X_priors = None, X_bars = None, X_bar_priors = None,
      ll = None, Ss = None\<rparr>"

definition first_coordinate :: "mat \<Rightarrow> mat" where
  "first_coordinate M = map (\<lambda>r. take 1 r) M"

definition sample_obj21 :: tenkf where
  "sample_obj21 = \<lparr>dim_x = 2, dim_z = 1, t_func = half_plus_noise, o_func = first_coordinate,
      ens_N = 2, seed = None, cov_R = [[1]], cov_Q = [[1, 0], [0, 1]], cov_P = [[1, 0], [0, 1]],
      mean_x = [0, 0],
      obs_Z = None, Xs = None, X_priors = None, X_bars = None, X_bar_priors = None,
      ll = None, Ss = None\<rparr>"

text \<open>
  The object after \<^verbatim>\<open>batch_filter(Z, store=True)\<close> on the observations \<open>1\<close> and \<open>2\<close>, and
  after \<^verbatim>\<open>batch_filter(Z)\<close> on the single observation \<open>1\<close>, both from the random state \<open>0\<close>.
\<close>
definition sample_stored :: tenkf where
  "sample_stored = sample_obj\<lparr>obs_Z := Some [[1], [2]],
        Xs := Some [[[6 / 17, 9 / 17]], [[1363 / 1227, 5236 / 3681]]],
        X_priors := Some [[[- (3 / 2), 0]], [[20 / 17, 77 / 34]]],
        X_bars := Some [[[- (3 / 34), 3 / 34]], [[- (1147 / 7362), 1147 / 7362]]],
        X_bar_priors := Some [[[- (3 / 4), 3 / 4]], [[- (37 / 68), 37 / 68]]]\<rparr>"

definition sample_unstored :: tenkf where
  "sample_unstored = sample_obj\<lparr>obs_Z := Some [[1]], Xs := Some [[[22 / 17, 25 / 17]]]\<rparr>"

definition sample_unstored2 :: tenkf where
  "sample_unstored2 = sample_obj\<lparr>obs_Z := Some [[1], [2]],
        Xs := Some [[[6 / 17, 9 / 17]], [[1363 / 1227, 5236 / 3681]]]\<rparr>"





text \<open>The object that \<^verbatim>\<open>TEnKF(1, dim_x=1, dim_z=1, fx=..., hx=...)\<close> constructs.\<close>
definition sample_obj1 :: tenkf where
  "sample_obj1 = sample_obj\<lparr>ens_N := 1\<rparr>"

subsection \<open>Shapes that the source takes for granted\<close>

text \<open>
  numpy arrays have their shape by construction and the callables of a filter are written
  for its dimensions. The model states this of an object: the dimensions are positive, the
  initial mean has the state dimension, the transition function returns a state of the length it was given, and the observation
  function maps \<open>N\<close> states to \<open>N\<close> observations.
\<close>
definition wf_model :: "tenkf \<Rightarrow> bool" where
  "wf_model self =
     (0 < dim_x self \<and> 0 < dim_z self \<and> 0 < ens_N self
      \<and> length (mean_x self) = dim_x self
      \<and> (\<forall>x e. length (t_func self x e) = length x)
      \<and> (\<forall>M. is_mat (ens_N self) (dim_x self) M
            \<longrightarrow> is_mat (ens_N self) (dim_z self) (o_func self M)))"

text \<open>A sampler returns arrays of the size it was asked for.\<close>
definition wf_sampler :: "collab \<Rightarrow> bool" where
  "wf_sampler env =
     ((\<forall>g mean cov t n r g'. multivariate env g mean cov (t, n) = Inr (r, g')
          \<longrightarrow> is_hist t n (length mean) r)
      \<and> (\<forall>g mean cov n M g'. multivariate1 env g mean cov n = Inr (M, g')
          \<longrightarrow> is_mat n (length mean) M))"

text \<open>Two states of an object that differ in the recorded arrays at most.\<close>
definition same_model :: "tenkf \<Rightarrow> tenkf \<Rightarrow> bool" where
  "same_model self self' =
     (dim_x self' = dim_x self \<and> dim_z self' = dim_z self \<and> ens_N self' = ens_N self
      \<and> t_func self' = t_func self \<and> o_func self' = o_func self \<and> cov_R self' = cov_R self
      \<and> mean_x self' = mean_x self)"

text \<open>
  An attribute holding a history, before and after writes of \<open>d \<times> n\<close> slices: it is present
  after if and only if it was before, keeps its length, and keeps having \<open>d \<times> n\<close> entries.
\<close>
definition hist_step :: "nat \<Rightarrow> nat \<Rightarrow> mat list option \<Rightarrow> mat list option \<Rightarrow> bool" where
  "hist_step d n H H' =
     rel_option (\<lambda>h h'. length h' = length h
                   \<and> (list_all (is_mat d n) h \<longrightarrow> list_all (is_mat d n) h')) H H'"

section \<open>Properties\<close>

subsection \<open>Error propagation\<close>

lemma bind_err_Inr [simp]: "bind_err (Inr v) f = f v"
  by (simp add: bind_err_def)

lemma bind_err_Inl [simp]: "bind_err (Inl e) f = Inl e"
  by (simp add: bind_err_def)

lemma bind_err_weak_cong: "m = m' \<Longrightarrow> bind_err m f = bind_err m' f"
  by simp

subsection \<open>Shapes, columns and the centering matrix\<close>

lemma is_mat_iff: "is_mat d n A \<longleftrightarrow> length A = d \<and> (\<forall>i<d. length (A ! i) = n)"
  by (auto simp: is_mat_def list_all_length)

lemma is_matI: "length A = d \<Longrightarrow> (\<And>i. i < d \<Longrightarrow> length (A ! i) = n) \<Longrightarrow> is_mat d n A"
  by (simp add: is_mat_iff)

lemma is_mat_length: "is_mat d n A \<Longrightarrow> length A = d"
  by (simp add: is_mat_iff)

lemma is_mat_row: "is_mat d n A \<Longrightarrow> i < d \<Longrightarrow> length (A ! i) = n"
  by (simp add: is_mat_iff)

lemma ncols_is_mat: "is_mat d n A \<Longrightarrow> 0 < d \<Longrightarrow> ncols A = n"
  by (cases A) (auto simp: ncols_def is_mat_def)

lemma length_col [simp]: "length (col A j) = length A"
  by (simp add: col_def)

lemma nth_col: "i < length A \<Longrightarrow> col A j ! i = A ! i ! j"
  by (simp add: col_def)

lemma is_mat_tr: "is_mat d n A \<Longrightarrow> 0 < d \<Longrightarrow> is_mat n d (tr A)"
  by (rule is_matI) (simp_all add: tr_def ncols_is_mat is_mat_length)

lemma nth_tr: "is_mat d n A \<Longrightarrow> i < d \<Longrightarrow> j < n \<Longrightarrow> tr A ! j ! i = A ! i ! j"
  by (simp add: tr_def ncols_is_mat nth_col is_mat_length)

lemma nth_tr_col: "j < ncols A \<Longrightarrow> tr A ! j = col A j"
  by (simp add: tr_def)

lemma length_tr [simp]: "length (tr A) = ncols A"
  by (simp add: tr_def)

lemma length_matmul [simp]: "length (matmul A B) = length A"
  by (simp add: matmul_def)

lemma is_mat_matmul: "is_mat (length A) (ncols B) (matmul A B)"
  by (rule is_matI) (simp_all add: matmul_def)

lemma is_mat_matmul': "length A = d \<Longrightarrow> is_mat k n B \<Longrightarrow> 0 < k \<Longrightarrow> is_mat d n (matmul A B)"
  using is_mat_matmul [of A B] by (simp add: ncols_is_mat)

lemma nth_matmul: "i < length A \<Longrightarrow> j < ncols B \<Longrightarrow> matmul A B ! i ! j = dot (A ! i) (col B j)"
  by (simp add: matmul_def nth_tr_col)

lemma col_matmul: "j < ncols B \<Longrightarrow> col (matmul A B) j = mat_vec A (col B j)"
  by (simp add: col_def matmul_def mat_vec_def nth_tr_col)

lemma length_vec_add [simp]: "length (vec_add u v) = min (length u) (length v)"
  by (simp add: vec_add_def)

lemma length_vec_sub [simp]: "length (vec_sub u v) = min (length u) (length v)"
  by (simp add: vec_sub_def)

lemma is_mat_add: "is_mat d n A \<Longrightarrow> is_mat d n B \<Longrightarrow> is_mat d n (mat_add A B)"
  by (rule is_matI) (simp_all add: mat_add_def is_mat_iff)

lemma is_mat_sub: "is_mat d n A \<Longrightarrow> is_mat d n B \<Longrightarrow> is_mat d n (mat_sub A B)"
  by (rule is_matI) (simp_all add: mat_sub_def is_mat_iff)

lemma col_mat_add: "is_mat d n A \<Longrightarrow> is_mat d n B \<Longrightarrow> j < n \<Longrightarrow>
    col (mat_add A B) j = vec_add (col A j) (col B j)"
  by (rule nth_equalityI) (simp_all add: col_def mat_add_def vec_add_def is_mat_iff)

lemma col_mat_sub: "is_mat d n A \<Longrightarrow> is_mat d n B \<Longrightarrow> j < n \<Longrightarrow>
    col (mat_sub A B) j = vec_sub (col A j) (col B j)"
  by (rule nth_equalityI) (simp_all add: col_def mat_sub_def vec_sub_def is_mat_iff)


lemma is_mat_outer: "is_mat (length u) (length v) (np_outer u v)"
  by (simp add: is_mat_iff np_outer_def)

lemma col_outer_ones: "j < n \<Longrightarrow> col (np_outer z (np_ones n)) j = z"
  by (rule nth_equalityI) (simp_all add: col_def np_outer_def np_ones_def)

lemma col_tr:
  assumes "is_mat n m M" "i < n"
  shows "col (tr M) i = M ! i"
proof -
  have nc: "ncols M = m" using assms by (auto intro: ncols_is_mat)
  have "length M = n" "length (M ! i) = m" using assms by (simp_all add: is_mat_iff)
  then show ?thesis
    using nc assms(2) by (intro nth_equalityI) (simp_all add: col_def tr_def)
qed

lemma is_mat_centering: "is_mat n n (centering n)"
  by (simp add: is_mat_iff centering_def mat_sub_def mat_div_def np_outer_def np_ones_def np_eye_def)

lemma col_centering: "j < n \<Longrightarrow>
    col (centering n) j = map (\<lambda>i. (if i = j then 1 else 0) - 1 / real n) [0..<n]"
  by (rule nth_equalityI)
     (simp_all add: col_def centering_def mat_sub_def mat_div_def np_outer_def np_ones_def
        np_eye_def vec_sub_def)

lemma dot_map_upt: "length r = n \<Longrightarrow> dot r (map f [0..<n]) = (\<Sum>i<n. r ! i * f i)"
proof -
  assume l: "length r = n"
  have "map2 (*) r (map f [0..<n]) = map (\<lambda>i. r ! i * f i) [0..<n]"
    using l by (intro nth_equalityI) simp_all
  then show ?thesis
    by (simp add: dot_def sum_list_sum_nth atLeast0LessThan)
qed

lemma dot_centering:
  assumes "length r = n" "j < n"
  shows "dot r (col (centering n) j) = r ! j - row_mean r"
proof -
  have "(\<Sum>i<n. r ! i * (if i = j then 1 else 0)) = (\<Sum>i<n. if i = j then r ! i else 0)"
    by (rule sum.cong) simp_all
  then have a: "(\<Sum>i<n. r ! i * (if i = j then 1 else 0)) = r ! j"
    using assms(2) by (simp add: sum.delta)
  have b: "(\<Sum>i<n. r ! i / real n) = row_mean r"
    using assms(1) by (simp add: row_mean_def sum_list_sum_nth atLeast0LessThan sum_divide_distrib)
  have "dot r (col (centering n) j) = (\<Sum>i<n. r ! i * ((if i = j then 1 else 0) - 1 / real n))"
    using assms by (simp add: col_centering dot_map_upt)
  also have "\<dots> = (\<Sum>i<n. r ! i * (if i = j then 1 else 0)) - (\<Sum>i<n. r ! i / real n)"
    by (simp add: right_diff_distrib sum_subtractf)
  finally show ?thesis using a b by simp
qed

lemma matmul_centering:
  assumes "is_mat d n X"
  shows "matmul X (centering n) = center X"
proof (cases "n = 0")
  case True
  with assms show ?thesis
    by (auto simp: matmul_def center_def is_mat_def list_all_iff centering_def tr_def ncols_def
        mat_sub_def np_eye_def)
next
  case False
  then have nc: "ncols (centering n) = n"
    using is_mat_centering [of n] by (simp add: ncols_is_mat)
  show ?thesis
  proof (rule nth_equalityI)
    show "length (matmul X (centering n)) = length (center X)"
      by (simp add: center_def)
  next
    fix i assume "i < length (matmul X (centering n))"
    then have i: "i < d" using assms by (simp add: is_mat_iff)
    then have lr: "length (X ! i) = n" using assms by (simp add: is_mat_iff)
    have li: "i < length X" using i assms by (simp add: is_mat_iff)
    show "matmul X (centering n) ! i = center X ! i"
    proof (rule nth_equalityI)
      show "length (matmul X (centering n) ! i) = length (center X ! i)"
        using li lr nc by (simp add: matmul_def center_def)
    next
      fix j assume "j < length (matmul X (centering n) ! i)"
      then have j: "j < n" using li nc by (simp add: matmul_def)
      show "matmul X (centering n) ! i ! j = center X ! i ! j"
        using li lr j nc by (simp add: nth_matmul dot_centering center_def)
    qed
  qed
qed

lemma is_mat_center: "is_mat d n A \<Longrightarrow> is_mat d n (center A)"
  by (simp add: is_mat_iff center_def)

lemma is_mat_ones_outer: "length z = m \<Longrightarrow> is_mat m n (np_outer z (np_ones n))"
  using is_mat_outer [of z "np_ones n"] by (simp add: np_ones_def)

lemma np_cov_eq:
  assumes "is_mat m n Y" "0 < m" "2 \<le> n"
  shows "np_cov Y = Inr (sample_cov n Y)"
  using assms by (simp add: np_cov_def ncols_is_mat sample_cov_def center_def Let_def)

lemma enkf_update_eq:
  assumes "is_mat d n X" "is_mat m n Y" "0 < m" "2 \<le> n"
  shows "enkf_update n R (np_ones n) (centering n) z mus_nz X Y =
     bind_err (nl_inv (mat_scale (real n - 1) (mat_add (sample_cov n Y) R))) (\<lambda>W.
       Inr (mat_add X (matmul (kalman_gain X Y W)
                        (mat_sub (mat_sub (np_outer z (np_ones n)) Y) (tr mus_nz))),
            center X, mat_add (sample_cov n Y) R))"
  using assms
  by (simp add: enkf_update_def np_cov_eq matmul_centering kalman_gain_def Let_def)

lemma innovation_shape:
  assumes "is_mat m n Y" "is_mat n m mus_nz" "length z = m" "0 < n"
  shows "is_mat m n (mat_sub (mat_sub (np_outer z (np_ones n)) Y) (tr mus_nz))"
  using assms by (intro is_mat_sub is_mat_ones_outer is_mat_tr) simp_all

lemma col_innovation:
  assumes "is_mat m n Y" "is_mat n m mus_nz" "length z = m" "i < n"
  shows "col (mat_sub (mat_sub (np_outer z (np_ones n)) Y) (tr mus_nz)) i
         = vec_sub (vec_sub z (col Y i)) (mus_nz ! i)"
proof -
  have n: "0 < n" using assms(4) by simp
  have a: "is_mat m n (np_outer z (np_ones n))" using assms(3) by (rule is_mat_ones_outer)
  have b: "is_mat m n (tr mus_nz)" using assms(2) n by (rule is_mat_tr)
  have c: "is_mat m n (mat_sub (np_outer z (np_ones n)) Y)" using a assms(1) by (rule is_mat_sub)
  show ?thesis
    using assms(4) by (simp add: col_mat_sub [OF c b] col_mat_sub [OF a assms(1)]
        col_outer_ones col_tr [OF assms(2)])
qed

lemma updated_shape:
  assumes "is_mat d n X" "is_mat m n M" "0 < m" "length K = d"
  shows "is_mat d n (mat_add X (matmul K M))"
  using assms by (intro is_mat_add is_mat_matmul') simp_all

lemma col_updated:
  assumes "is_mat d n X" "is_mat m n M" "0 < m" "length K = d" "i < n"
  shows "col (mat_add X (matmul K M)) i = vec_add (col X i) (mat_vec K (col M i))"
proof -
  have "is_mat d n (matmul K M)" using assms by (intro is_mat_matmul') simp_all
  then show ?thesis
    using assms by (simp add: col_mat_add col_matmul ncols_is_mat)
qed

lemma length_kalman_gain: "length (kalman_gain X Y W) = length X"
  by (simp add: kalman_gain_def center_def)

subsection \<open>The smoother\<close>

declare rts_spec.simps [simp del]

lemma smoother_step_ok:
  assumes "Xs self = Some xs" "X_priors self = Some priors" "X_bars self = Some bars"
    "X_bar_priors self = Some bar_priors"
    "length priors = length xs" "length bars = length xs" "length bar_priors = length xs"
    "Suc i < length xs"
  shows "smoother_step tinv self i (rts_spec tinv xs priors bars bar_priors (Suc i))
         = Inr (rts_spec tinv xs priors bars bar_priors i)"
  using assms
  by (simp add: smoother_step_def getattr_def index0_def rts_spec.simps [of _ _ _ _ _ i])

lemma upd_prefix:
  assumes "Suc i \<le> length xs"
  shows "(take (Suc i) xs @ map f [Suc i..<length xs])[i := f i]
         = take i xs @ map f [i..<length xs]"
proof (rule nth_equalityI)
  show "length ((take (Suc i) xs @ map f [Suc i..<length xs])[i := f i])
        = length (take i xs @ map f [i..<length xs])"
    using assms by simp
next
  fix j assume "j < length ((take (Suc i) xs @ map f [Suc i..<length xs])[i := f i])"
  then have j: "j < length xs" using assms by simp
  show "(take (Suc i) xs @ map f [Suc i..<length xs])[i := f i] ! j
        = (take i xs @ map f [i..<length xs]) ! j"
    using assms j by (cases "j = i") (auto simp: nth_append nth_list_update)
qed

lemma smoother_loop_ok:
  assumes "Xs self = Some xs" "X_priors self = Some priors" "X_bars self = Some bars"
    "X_bar_priors self = Some bar_priors"
    "length priors = length xs" "length bars = length xs" "length bar_priors = length xs"
  shows "Suc k \<le> length xs \<Longrightarrow>
     smoother_loop tinv self k (rts_spec tinv xs priors bars bar_priors k)
        (take k xs @ map (rts_spec tinv xs priors bars bar_priors) [k..<length xs])
     = Inr (rts_spec tinv xs priors bars bar_priors 0,
            map (rts_spec tinv xs priors bars bar_priors) [0..<length xs])"
proof (induction k)
  case 0
  then show ?case by simp
next
  case (Suc k)
  have "Suc k < length xs" using Suc.prems by simp
  from smoother_step_ok [OF assms this, of tinv] Suc show ?case
    by (simp add: upd_prefix)
qed

lemma rts_smoother_history:
  assumes "Xs self = Some xs" "X_priors self = Some priors" "X_bars self = Some bars"
    "X_bar_priors self = Some bar_priors"
    "length priors = length xs" "length bars = length xs" "length bar_priors = length xs"
    "xs \<noteq> []"
  shows "rts_smoother tinv self means covs rcond =
     Inr (rollaxis2 (ens_N self) (map (rts_spec tinv xs priors bars bar_priors) [0..<length xs]),
          self\<lparr>Ss := Some (map (rts_spec tinv xs priors bars bar_priors) [0..<length xs])\<rparr>)"
proof -
  let ?f = "rts_spec tinv xs priors bars bar_priors"
  obtain k where k: "length xs = Suc k" using \<open>xs \<noteq> []\<close> by (cases xs) auto
  have l: "?f k = last xs" using k by (simp add: rts_spec.simps [of _ _ _ _ _ k])
  have "xs = take k xs @ [last xs]"
    using k \<open>xs \<noteq> []\<close> by (metis append_butlast_last_id butlast_conv_take diff_Suc_1)
  then have b: "take k xs @ map ?f [k..<length xs] = xs"
    using k l by simp
  have "smoother_loop tinv self k (last xs) xs = Inr (?f 0, map ?f [0..<length xs])"
    using smoother_loop_ok [OF assms(1-7), of k tinv] k l b by simp
  then show ?thesis
    using assms(1,8) k by (simp add: rts_smoother_def getattr_def index_last_def)
qed

text \<open>
  C10: the result of \<^verbatim>\<open>rts_smoother\<close> does not depend on its arguments \<^verbatim>\<open>means\<close>, \<^verbatim>\<open>covs\<close>
  and \<^verbatim>\<open>rcond\<close>: two calls on the same object with any values of the three return the same
  array and leave the same object (or raise the same error).
\<close>
theorem rts_smoother_ignores_means_covs_rcond:
  "rts_smoother tinv self means covs rcond = rts_smoother tinv self means' covs' rcond'"
  by (simp add: rts_smoother_def)

subsection \<open>Evaluation on numerals\<close>

lemma upt_0_1: "[0..<1] = [0]" by simp
lemma upt_0_2: "[0..<2] = [0, 1]" by (simp add: upt_rec)
lemma replicate_1: "replicate 1 x = [x]" by simp
lemma replicate_2: "replicate 2 x = [x, x]" by (simp add: numeral_2_eq_2)

lemmas num_defs = upt_0_1 upt_0_2 replicate_1 replicate_2

lemmas mat_defs = mat_sub_def mat_add_def mat_div_def mat_scale_def vec_add_def vec_sub_def
  matmul_def mat_vec_def tr_def col_def ncols_def dot_def np_zeros_def np_ones_def np_eye_def
  np_outer_def np_empty_def

lemmas step_defs = batch_step_def predict_def set_col_def enkf_update_def np_cov_def nl_inv_def
  is_mat_def row_mean_def del_nth_def set_slice_def centering_def Let_def

lemmas sample_defs = sample_obj_def sample_env_def sample_multivariate_def
  sample_multivariate1_def sample_vec_def sample_noise_def half_plus_noise_def observe_all_def

lemmas filter_defs = batch_filter_def allocate_def reseed_def draw_mus_def draw_epss_def initial_ensemble_def
  ndarray_bool_def seed_or_def getattr_def rollaxis2_def

subsection \<open>The update of a filtering step\<close>

text \<open>
  C1: in a filtering step of \<^verbatim>\<open>batch_filter\<close>, with \<open>X1\<close> the predicted ensemble and \<open>Y\<close>
  its image under the observation function, the innovation covariance is
  \<open>S = sample_cov n Y + R\<close> (the sample covariance of \<open>Y\<close> normalised by \<open>n - 1\<close>, plus \<open>R\<close>),
  and when \<open>(n - 1) S\<close> has the inverse \<open>W\<close> the step returns an ensemble whose member \<open>i\<close>
  is member \<open>i\<close> of \<open>X1\<close> plus the gain \<open>center X1 \<cdot> (center Y)\<^sup>T \<cdot> W\<close> applied to
  \<open>z - Y\<^sub>i - mu\<^sub>i\<close>, where \<open>mu\<^sub>i\<close> is row \<open>i\<close> of \<^verbatim>\<open>mus[nz]\<close>. The centering matrix that the
  source multiplies with is shown to subtract the ensemble mean (\<open>matmul_centering\<close>).
\<close>
theorem update_adds_gain_times_innovation:
  assumes "ens_N self = n" "cov_R self = R"
    and "X1 = predict self (epss ! nz) X" "Y = tr (o_func self (tr X1))"
    and "is_mat d n X1" "is_mat m n Y" "is_mat n m (mus ! nz)" "length z = m"
    and "0 < m" "2 \<le> n"
    and "S = mat_add (sample_cov n Y) R"
    and "nl_inv (mat_scale (real n - 1) S) = Inr W"
  shows "\<exists>X' l' self'.
      batch_step env store calc_ll (np_ones n) (centering n) mus epss nz z (X, l, self)
        = Inr (X', l', self')
    \<and> enkf_update n R (np_ones n) (centering n) z (mus ! nz) X1 Y = Inr (X', center X1, S)
    \<and> is_mat d n X'
    \<and> (\<forall>i<n. col X' i
          = vec_add (col X1 i)
              (mat_vec (kalman_gain X1 Y W) (vec_sub (vec_sub z (col Y i)) (mus ! nz ! i))))"
proof -
  let ?M = "mat_sub (mat_sub (np_outer z (np_ones n)) Y) (tr (mus ! nz))"
  let ?X' = "mat_add X1 (matmul (kalman_gain X1 Y W) ?M)"
  have n: "0 < n" using assms(10) by simp
  have M: "is_mat m n ?M"
    using assms(6,7,8) n by (rule innovation_shape)
  have K: "length (kalman_gain X1 Y W) = d"
    using assms(5) by (simp add: length_kalman_gain is_mat_length)
  have upd: "enkf_update n R (np_ones n) (centering n) z (mus ! nz) X1 Y
             = Inr (?X', center X1, S)"
    using assms(11,12) by (simp add: enkf_update_eq [OF assms(5,6,9,10)])
  have shape: "is_mat d n ?X'"
    using assms(5) M assms(9) K by (rule updated_shape)
  have cols: "\<forall>i<n. col ?X' i
      = vec_add (col X1 i)
          (mat_vec (kalman_gain X1 Y W) (vec_sub (vec_sub z (col Y i)) (mus ! nz ! i)))"
    using col_updated [OF assms(5) M assms(9) K] col_innovation [OF assms(6,7,8)] by simp
  have "\<exists>l' self'.
      batch_step env store calc_ll (np_ones n) (centering n) mus epss nz z (X, l, self)
        = Inr (?X', l', self')"
    using upd assms(1-4) by (simp add: batch_step_def Let_def)
  then show ?thesis using upd shape cols by blast
qed

theorem update_adds_gain_times_innovation_witness:
  "batch_step sample_env False False (np_ones 2) (centering 2)
      [[[- 1], [0]], [[1], [2]]] [[[- 1], [0]], [[1], [2]]] 0 [1] ([[- 1, 0]], 0, sample_obj)
     = Inr ([[6 / 17, 9 / 17]], 0, sample_obj)
   \<and> nl_inv (mat_scale (real 2 - 1) (mat_add (sample_cov 2 [[- 3 / 2, 0]]) [[1]])) = Inr [[8 / 17]]
   \<and> col [[6 / 17, 9 / 17]] 0
       = vec_add (col [[- 3 / 2, 0]] 0)
           (mat_vec (kalman_gain [[- 3 / 2, 0]] [[- 3 / 2, 0]] [[8 / 17]])
              (vec_sub (vec_sub [1] (col [[- 3 / 2, 0]] 0)) [- 1]))
   \<and> col [[6 / 17, 9 / 17]] 1
       = vec_add (col [[- 3 / 2, 0]] 1)
           (mat_vec (kalman_gain [[- 3 / 2, 0]] [[- 3 / 2, 0]] [[8 / 17]])
              (vec_sub (vec_sub [1] (col [[- 3 / 2, 0]] 1)) [0]))"
proof -
  let ?mus = "[[[- 1], [0]], [[1], [2]]] :: mat list"
  have p: "predict sample_obj (?mus ! 0) [[- 1, 0]] = [[- 3 / 2, 0]]"
    by (simp add: predict_def set_col_def sample_defs mat_defs num_defs)
  have y: "tr (o_func sample_obj (tr [[- 3 / 2, 0]])) = [[- 3 / 2, 0]]"
    by (simp add: sample_defs mat_defs num_defs)
  have i: "nl_inv (mat_scale (real 2 - 1) (mat_add (sample_cov 2 [[- 3 / 2, 0]]) [[1]]))
           = Inr [[8 / 17]]"
    by (simp add: nl_inv_def sample_cov_def center_def is_mat_def row_mean_def del_nth_def
        mat_defs num_defs)
  have s1: "is_mat 1 2 [[- 3 / 2, 0 :: real]]" by (simp add: is_mat_def)
  have s2: "is_mat 2 1 (?mus ! 0)" by (simp add: is_mat_def)
  from update_adds_gain_times_innovation [of sample_obj 2 "[[1]]" "[[- 3 / 2, 0]]" ?mus 0
      "[[- 1, 0]]" "[[- 3 / 2, 0]]" 1 1 ?mus "[1]" _ "[[8 / 17]]" sample_env False False 0]
  have "\<exists>X' l' self'.
      batch_step sample_env False False (np_ones 2) (centering 2) ?mus ?mus 0 [1]
         ([[- 1, 0]], 0, sample_obj) = Inr (X', l', self')
    \<and> enkf_update 2 [[1]] (np_ones 2) (centering 2) [1] (?mus ! 0) [[- 3 / 2, 0]] [[- 3 / 2, 0]]
        = Inr (X', center [[- 3 / 2, 0]], mat_add (sample_cov 2 [[- 3 / 2, 0]]) [[1]])
    \<and> is_mat 1 2 X'
    \<and> (\<forall>i<2. col X' i
          = vec_add (col [[- 3 / 2, 0]] i)
              (mat_vec (kalman_gain [[- 3 / 2, 0]] [[- 3 / 2, 0]] [[8 / 17]])
                 (vec_sub (vec_sub [1] (col [[- 3 / 2, 0]] i)) (?mus ! 0 ! i))))"
    using p y i s1 s2 by (simp add: sample_obj_def)
  moreover have "batch_step sample_env False False (np_ones 2) (centering 2) ?mus ?mus 0 [1]
         ([[- 1, 0]], 0, sample_obj) = Inr ([[6 / 17, 9 / 17]], 0, sample_obj)"
    by (simp add: step_defs sample_defs mat_defs num_defs
        cong: bind_err_weak_cong let_weak_cong)
  ultimately show ?thesis using i by auto
qed

subsection \<open>Sample runs\<close>

lemma sample_run_stored:
  "batch_filter sample_env sample_obj 0 [[1], [2]] None None True False
   = Inr (History [[[6 / 17], [1363 / 1227]], [[9 / 17], [5236 / 3681]]], sample_stored, 10)"
  by (simp add: sample_stored_def filter_defs step_defs sample_defs mat_defs num_defs
      cong: bind_err_weak_cong let_weak_cong)

lemma sample_run_unstored:
  "batch_filter sample_env sample_obj 0 [[1]] None None False False
   = Inr (History [[[22 / 17]], [[25 / 17]]], sample_unstored, 6)"
  by (simp add: sample_unstored_def filter_defs step_defs sample_defs mat_defs num_defs
      cong: bind_err_weak_cong let_weak_cong)

lemma sample_smooth_unstored:
  "rts_smoother pinv_rows sample_unstored None None (1 / 10 ^ 14)
   = Inr ([[[22 / 17]], [[25 / 17]]], sample_unstored\<lparr>Ss := Some [[[22 / 17, 25 / 17]]]\<rparr>)"
  by (simp add: rts_smoother_def sample_unstored_def sample_obj_def getattr_def index_last_def
      rollaxis2_def num_defs)

lemma sample_smooth_stored:
  "rts_smoother pinv_rows sample_stored None None (1 / 10 ^ 14)
   = Inr ([[[140 / 409], [1363 / 1227]], [[482 / 1227], [5236 / 3681]]],
          sample_stored\<lparr>Ss := Some [[[140 / 409, 482 / 1227]], [[1363 / 1227, 5236 / 3681]]]\<rparr>)"
  by (simp add: rts_smoother_def smoother_step_def sample_stored_def sample_obj_def getattr_def
      index_last_def index0_def rollaxis2_def pinv_rows_def nl_inv_def is_mat_def del_nth_def
      mat_defs num_defs Let_def
      cong: bind_err_weak_cong let_weak_cong)

lemma sample_obj_constructed:
  "TEnKF_init 2 (Some 1) (Some 1) half_plus_noise observe_all None = Inr sample_obj"
  by (simp add: TEnKF_init_def sample_obj_def np_eye_def np_zeros_def num_defs)

lemma sample_obj21_constructed:
  "TEnKF_init 2 (Some 2) (Some 1) half_plus_noise first_coordinate None = Inr sample_obj21"
  by (simp add: TEnKF_init_def sample_obj21_def np_eye_def np_zeros_def num_defs)

text \<open>
  C2: on an object that holds the four histories of a run of \<open>T \<ge> 1\<close> steps,
  \<^verbatim>\<open>rts_smoother\<close> returns the rolled smoothed history \<open>ss\<close> of length \<open>T\<close>. Its last
  entry is the filter's final posterior ensemble, and every earlier entry \<open>i\<close> is
  \<open>posterior i + J (ss (i + 1) - prior (i + 1))\<close> with
  \<open>J = posterior anomaly i \<cdot> tinv (prior anomaly (i + 1))\<close>: entry \<open>i\<close> is computed from
  entry \<open>i + 1\<close>, so the steps run from \<open>T - 2\<close> down to \<open>0\<close>. The gain uses the generalised
  inverse \<^verbatim>\<open>tinv\<close> and no other inverse.
\<close>
theorem rts_smoother_backward_recursion:
  assumes "Xs self = Some xs" "X_priors self = Some priors" "X_bars self = Some bars"
    "X_bar_priors self = Some bar_priors"
    "length priors = length xs" "length bars = length xs" "length bar_priors = length xs"
    "xs \<noteq> []"
  shows "\<exists>ss.
      rts_smoother tinv self means covs rcond
        = Inr (rollaxis2 (ens_N self) ss, self\<lparr>Ss := Some ss\<rparr>)
    \<and> ss = map (rts_spec tinv xs priors bars bar_priors) [0..<length xs]
    \<and> length ss = length xs
    \<and> ss ! (length xs - 1) = last xs
    \<and> (\<forall>i. Suc i < length xs \<longrightarrow>
          ss ! i = mat_add (xs ! i)
                     (matmul (matmul (bars ! i) (tinv (bar_priors ! Suc i)))
                        (mat_sub (ss ! Suc i) (priors ! Suc i))))"
proof -
  let ?f = "rts_spec tinv xs priors bars bar_priors"
  let ?ss = "map ?f [0..<length xs]"
  have r: "rts_smoother tinv self means covs rcond
        = Inr (rollaxis2 (ens_N self) ?ss, self\<lparr>Ss := Some ?ss\<rparr>)"
    using assms by (rule rts_smoother_history)
  have le: "length xs \<le> Suc (length xs - 1)" by arith
  have "?f (length xs - 1) = last xs"
    by (subst rts_spec.simps) (use le in simp)
  then have l: "?ss ! (length xs - 1) = last xs"
    using assms(8) by simp
  have s: "\<forall>i. Suc i < length xs \<longrightarrow>
          ?ss ! i = mat_add (xs ! i)
                     (matmul (matmul (bars ! i) (tinv (bar_priors ! Suc i)))
                        (mat_sub (?ss ! Suc i) (priors ! Suc i)))"
  proof (intro allI impI)
    fix i assume i: "Suc i < length xs"
    then show "?ss ! i = mat_add (xs ! i)
                     (matmul (matmul (bars ! i) (tinv (bar_priors ! Suc i)))
                        (mat_sub (?ss ! Suc i) (priors ! Suc i)))"
      by (simp add: rts_spec.simps [of _ _ _ _ _ i])
  qed
  show ?thesis using r l s by (intro exI [of _ ?ss]) simp
qed

theorem rts_smoother_backward_recursion_witness:
  "rts_smoother pinv_rows sample_stored None None (1 / 10 ^ 14)
     = Inr ([[[140 / 409], [1363 / 1227]], [[482 / 1227], [5236 / 3681]]],
            sample_stored\<lparr>Ss := Some [[[140 / 409, 482 / 1227]], [[1363 / 1227, 5236 / 3681]]]\<rparr>)
   \<and> [[140 / 409, 482 / 1227]]
     = mat_add [[6 / 17, 9 / 17]]
         (matmul (matmul [[- (3 / 34), 3 / 34]] (pinv_rows [[- (37 / 68), 37 / 68]]))
            (mat_sub [[1363 / 1227, 5236 / 3681]] [[20 / 17, 77 / 34]]))"
proof -
  let ?xs = "[[[6 / 17, 9 / 17]], [[1363 / 1227, 5236 / 3681]]] :: mat list"
  let ?pri = "[[[- (3 / 2), 0]], [[20 / 17, 77 / 34]]] :: mat list"
  let ?bars = "[[[- (3 / 34), 3 / 34]], [[- (1147 / 7362), 1147 / 7362]]] :: mat list"
  let ?bpri = "[[[- (3 / 4), 3 / 4]], [[- (37 / 68), 37 / 68]]] :: mat list"
  have h: "Xs sample_stored = Some ?xs" "X_priors sample_stored = Some ?pri"
    "X_bars sample_stored = Some ?bars" "X_bar_priors sample_stored = Some ?bpri"
    by (simp_all add: sample_stored_def sample_obj_def)
  have w: "\<exists>ss.
      rts_smoother pinv_rows sample_stored None None (1 / 10 ^ 14)
        = Inr (rollaxis2 (ens_N sample_stored) ss, sample_stored\<lparr>Ss := Some ss\<rparr>)
    \<and> ss = map (rts_spec pinv_rows ?xs ?pri ?bars ?bpri) [0..<length ?xs]
    \<and> length ss = length ?xs
    \<and> ss ! (length ?xs - 1) = last ?xs
    \<and> (\<forall>i. Suc i < length ?xs \<longrightarrow>
          ss ! i = mat_add (?xs ! i)
                     (matmul (matmul (?bars ! i) (pinv_rows (?bpri ! Suc i)))
                        (mat_sub (ss ! Suc i) (?pri ! Suc i))))"
    by (rule rts_smoother_backward_recursion [OF h]) simp_all
  have a: "[[140 / 409, 482 / 1227]]
     = mat_add [[6 / 17, 9 / 17]]
         (matmul (matmul [[- (3 / 34), 3 / 34]] (pinv_rows [[- (37 / 68), 37 / 68]]))
            (mat_sub [[1363 / 1227, 5236 / 3681]] [[20 / 17, 77 / 34]]))"
    by (simp add: pinv_rows_def nl_inv_def is_mat_def del_nth_def mat_defs num_defs Let_def)
  from w a sample_smooth_stored show ?thesis by blast
qed

text \<open>
  C4: the constructed filter with one state coordinate and two members is given the
  \<open>1 \<times> 2\<close> initial ensemble \<open>(1/2, 3/2)\<close>. Line 81 evaluates the array's truth value, which
  raises \<^verbatim>\<open>ValueError\<close> for an array of more than one element: the ensemble is not used,
  the call fails.
\<close>
theorem init_states_array_raises:
  "TEnKF_init 2 (Some 1) (Some 1) half_plus_noise observe_all None = Inr sample_obj
   \<and> is_mat (dim_x sample_obj) (ens_N sample_obj) [[1 / 2, 3 / 2]]
   \<and> batch_filter sample_env sample_obj 0 [[1], [2]] (Some [[1 / 2, 3 / 2]]) None False False
       = Inl ValueError"
  using sample_obj_constructed
  by (simp add: filter_defs sample_defs mat_defs num_defs is_mat_def
      cong: bind_err_weak_cong let_weak_cong)

text \<open>
  C5: the constructed filter with two state coordinates and one observed coordinate. The
  process noise is requested with the mean \<^verbatim>\<open>np.zeros(self._dim_z)\<close> of length one and the
  \<open>2 \<times> 2\<close> covariance \<open>Q\<close>; a sampler that checks its arguments as
  \<^verbatim>\<open>np.random.multivariate_normal\<close> does raises \<^verbatim>\<open>ValueError\<close>, and so does the call.
\<close>
theorem process_noise_mean_has_observation_dimension:
  "TEnKF_init 2 (Some 2) (Some 1) half_plus_noise first_coordinate None = Inr sample_obj21
   \<and> np_zeros (dim_z sample_obj21) = [0]
   \<and> cov_Q sample_obj21 = [[1, 0], [0, 1]]
   \<and> draw_epss sample_env sample_obj21 4 [[1], [2]]
       = multivariate sample_env 4 [0] [[1, 0], [0, 1]] (2, 2)
   \<and> draw_epss sample_env sample_obj21 4 [[1], [2]] = Inl ValueError
   \<and> batch_filter sample_env sample_obj21 0 [[1], [2]] None None False False = Inl ValueError"
  using sample_obj21_constructed
  by (simp add: filter_defs sample_obj21_def sample_env_def
      sample_multivariate_def sample_multivariate1_def sample_vec_def sample_noise_def
      mat_defs num_defs cong: bind_err_weak_cong let_weak_cong)

subsection \<open>Invariants of the time loop\<close>

lemma same_model_refl [simp]: "same_model self self"
  by (simp add: same_model_def)

lemma same_model_trans: "same_model a b \<Longrightarrow> same_model b c \<Longrightarrow> same_model a c"
  by (simp add: same_model_def)

lemma wf_model_same: "wf_model self \<Longrightarrow> same_model self self' \<Longrightarrow> wf_model self'"
  by (simp add: wf_model_def same_model_def)

lemma hist_step_refl [simp]: "hist_step d n H H"
  by (cases H) (simp_all add: hist_step_def)

lemma hist_step_trans: "hist_step d n A B \<Longrightarrow> hist_step d n B C \<Longrightarrow> hist_step d n A C"
  by (cases A; cases B; cases C) (simp_all add: hist_step_def)

lemma list_all_update: "list_all P xs \<Longrightarrow> P x \<Longrightarrow> list_all P (xs[i := x])"
  by (auto simp: list_all_iff dest: set_update_subset_insert [THEN subsetD])

lemma hist_step_set_slice: "is_mat d n M \<Longrightarrow> hist_step d n H (set_slice H nz M)"
  by (cases H) (simp_all add: hist_step_def set_slice_def list_all_update)

lemma hist_step_set_slice2:
  "is_mat d n M \<Longrightarrow> is_mat d n M' \<Longrightarrow> hist_step d n H (set_slice (set_slice H nz M) nz' M')"
  by (cases H) (simp_all add: hist_step_def set_slice_def list_all_update)

lemma hist_step_Some:
  "hist_step d n (Some h) H' \<Longrightarrow> is_hist t d n h \<Longrightarrow> \<exists>h'. H' = Some h' \<and> is_hist t d n h'"
  by (cases H') (simp_all add: hist_step_def is_hist_def)

lemma hist_step_None: "hist_step d n None H' \<Longrightarrow> H' = None"
  by (cases H') (simp_all add: hist_step_def)

lemma is_hist_empty: "is_hist t d n (np_empty t d n)"
  by (simp add: is_hist_def np_empty_def is_mat_def list_all_length)

lemma length_set_col: "length v = length X \<Longrightarrow> length (set_col X i v) = length X"
  by (simp add: set_col_def)

lemma is_mat_set_col: "is_mat d n X \<Longrightarrow> length v = d \<Longrightarrow> is_mat d n (set_col X i v)"
  by (simp add: is_mat_iff set_col_def)

lemma is_mat_fold_set_col:
  assumes "\<And>x e. length (f x e) = length x"
  shows "is_mat d n X \<Longrightarrow> is_mat d n (fold (\<lambda>i X'. set_col X' i (f (col X' i) (E ! i))) js X)"
proof (induction js arbitrary: X)
  case Nil
  then show ?case by simp
next
  case (Cons j js)
  have "is_mat d n (set_col X j (f (col X j) (E ! j)))"
    using Cons.prems assms by (intro is_mat_set_col) (simp_all add: is_mat_length)
  then show ?case using Cons.IH by simp
qed

lemma is_mat_predict:
  "wf_model self \<Longrightarrow> is_mat d n X \<Longrightarrow> is_mat d n (predict self E X)"
  unfolding predict_def by (rule is_mat_fold_set_col) (simp_all add: wf_model_def)

lemma observed_shape:
  assumes "wf_model self" "is_mat (dim_x self) (ens_N self) X"
  shows "is_mat (dim_z self) (ens_N self) (tr (o_func self (tr X)))"
proof -
  have "is_mat (ens_N self) (dim_x self) (tr X)"
    using assms by (intro is_mat_tr) (simp_all add: wf_model_def)
  then have "is_mat (ens_N self) (dim_z self) (o_func self (tr X))"
    using assms(1) by (simp add: wf_model_def)
  then show ?thesis
    using assms(1) by (intro is_mat_tr) (simp_all add: wf_model_def)
qed

lemma np_cov_one_column: "is_mat m n Y \<Longrightarrow> 0 < m \<Longrightarrow> n < 2 \<Longrightarrow> np_cov Y = Inl FloatNaN"
  by (simp add: np_cov_def ncols_is_mat)

lemma enkf_update_shape:
  assumes "is_mat d n X" "is_mat m n Y" "is_mat n m mus_nz" "length z = m" "0 < m" "0 < n"
    and "enkf_update n R (np_ones n) (centering n) z mus_nz X Y = Inr (X', Xb, S)"
  shows "is_mat d n X' \<and> Xb = center X \<and> 2 \<le> n"
proof (cases "2 \<le> n")
  case False
  then have "n < 2" by arith
  with assms(2,5) have "np_cov Y = Inl FloatNaN"
    by (rule np_cov_one_column)
  then show ?thesis using assms(7) by (simp add: enkf_update_def)
next
  case True
  let ?M = "mat_sub (mat_sub (np_outer z (np_ones n)) Y) (tr mus_nz)"
  have M: "is_mat m n ?M" using assms(2,3,4,6) by (rule innovation_shape)
  obtain W where W: "X' = mat_add X (matmul (kalman_gain X Y W) ?M)" "Xb = center X"
    using assms(7) True
    by (auto simp: enkf_update_eq [OF assms(1,2,5)] bind_err_def split: sum.splits)
  have "is_mat d n X'"
    unfolding W(1) using assms(1) M assms(5)
    by (rule updated_shape) (simp add: length_kalman_gain is_mat_length [OF assms(1)])
  then show ?thesis using W(2) True by simp
qed

lemma set_slice_idem [simp]: "set_slice (set_slice H nz M) nz M = set_slice H nz M"
  by (cases H) (simp_all add: set_slice_def)

lemma batch_step_Inr:
  assumes "batch_step env store calc_ll I1 I2 mus epss nz z (X, l, self) = Inr (X', l', self')"
  shows "\<exists>Xb S.
      enkf_update (ens_N self) (cov_R self) I1 I2 z (mus ! nz) (predict self (epss ! nz) X)
          (tr (o_func self (tr (predict self (epss ! nz) X)))) = Inr (X', Xb, S)
    \<and> same_model self self'
    \<and> Xs self' = (if store \<or> \<not> calc_ll then set_slice (Xs self) nz X' else Xs self)
    \<and> X_priors self'
        = (if store then set_slice (X_priors self) nz (predict self (epss ! nz) X)
           else X_priors self)
    \<and> X_bars self' = (if store then set_slice (X_bars self) nz (matmul X' I2) else X_bars self)
    \<and> X_bar_priors self'
        = (if store then set_slice (X_bar_priors self) nz Xb else X_bar_priors self)
    \<and> l' = (if calc_ll
            then l + logpdf env
                   (vec_sub z (map row_mean (tr (o_func self (tr (predict self (epss ! nz) X))))))
                   (np_zeros (dim_z self)) S
            else l)"
  using assms
  by (auto simp: batch_step_def Let_def bind_err_def same_model_def
      split: sum.splits prod.splits if_splits)

lemma batch_step_inv:
  assumes wf: "wf_model self"
    and dims: "ens_N self = n" "dim_x self = d" "dim_z self = m"
    and z: "length z = m" and mu: "is_mat n m (mus ! nz)" and X: "is_mat d n X"
    and step: "batch_step env store calc_ll (np_ones n) (centering n) mus epss nz z (X, l, self)
               = Inr (X', l', self')"
  shows "is_mat d n X' \<and> same_model self self' \<and> 2 \<le> n
    \<and> hist_step d n (Xs self) (Xs self') \<and> hist_step d n (X_priors self) (X_priors self')
    \<and> hist_step d n (X_bars self) (X_bars self')
    \<and> hist_step d n (X_bar_priors self) (X_bar_priors self')
    \<and> (\<not> store \<longrightarrow> X_priors self' = X_priors self \<and> X_bars self' = X_bars self
          \<and> X_bar_priors self' = X_bar_priors self)"
proof -
  let ?X1 = "predict self (epss ! nz) X"
  let ?Y = "tr (o_func self (tr ?X1))"
  from batch_step_Inr [OF step] obtain Xb S where
    u: "enkf_update (ens_N self) (cov_R self) (np_ones n) (centering n) z (mus ! nz) ?X1 ?Y
        = Inr (X', Xb, S)"
    and sm: "same_model self self'"
    and f1: "Xs self' = (if store \<or> \<not> calc_ll then set_slice (Xs self) nz X' else Xs self)"
    and f2: "X_priors self' = (if store then set_slice (X_priors self) nz ?X1 else X_priors self)"
    and f3: "X_bars self'
             = (if store then set_slice (X_bars self) nz (matmul X' (centering n)) else X_bars self)"
    and f4: "X_bar_priors self'
             = (if store then set_slice (X_bar_priors self) nz Xb else X_bar_priors self)"
    by blast
  have pos: "0 < m" "0 < n" using wf dims by (simp_all add: wf_model_def)
  have X1: "is_mat d n ?X1" using wf X by (rule is_mat_predict)
  have Y: "is_mat m n ?Y" using observed_shape [OF wf, of ?X1] X1 dims by simp
  from enkf_update_shape [OF X1 Y mu z pos] u dims
  have r: "is_mat d n X'" "Xb = center ?X1" "2 \<le> n" by simp_all
  have Xb: "is_mat d n Xb" using r(2) X1 by (simp add: is_mat_center)
  have Xc: "is_mat d n (matmul X' (centering n))"
    using r(1) by (simp add: matmul_centering is_mat_center)
  show ?thesis
    using r(1,3) sm f1 f2 f3 f4 X1 Xb Xc by (simp add: hist_step_set_slice)
qed

lemma filter_loop_inv:
  "wf_model self \<Longrightarrow> list_all (\<lambda>z. length z = m) zs
    \<Longrightarrow> \<forall>k<length zs. is_mat n m (mus ! (nz + k))
    \<Longrightarrow> is_mat d n X
    \<Longrightarrow> ens_N self = n \<Longrightarrow> dim_x self = d \<Longrightarrow> dim_z self = m
    \<Longrightarrow> filter_loop env store calc_ll (np_ones n) (centering n) mus epss nz zs (X, l, self)
          = Inr (X', l', self')
    \<Longrightarrow> is_mat d n X' \<and> same_model self self' \<and> (zs \<noteq> [] \<longrightarrow> 2 \<le> n)
      \<and> hist_step d n (Xs self) (Xs self') \<and> hist_step d n (X_priors self) (X_priors self')
      \<and> hist_step d n (X_bars self) (X_bars self')
      \<and> hist_step d n (X_bar_priors self) (X_bar_priors self')
      \<and> (\<not> store \<longrightarrow> X_priors self' = X_priors self \<and> X_bars self' = X_bars self
            \<and> X_bar_priors self' = X_bar_priors self)"
proof (induction zs arbitrary: nz X l self)
  case Nil
  then show ?case by simp
next
  case (Cons z zs)
  from Cons.prems(8) obtain X1 l1 self1 where
    s: "batch_step env store calc_ll (np_ones n) (centering n) mus epss nz z (X, l, self)
        = Inr (X1, l1, self1)"
    and r: "filter_loop env store calc_ll (np_ones n) (centering n) mus epss (Suc nz) zs
              (X1, l1, self1) = Inr (X', l', self')"
    by (auto simp: bind_err_def split: sum.splits)
  have z: "length z = m" and zs: "list_all (\<lambda>z. length z = m) zs"
    using Cons.prems(2) by simp_all
  have mu: "is_mat n m (mus ! nz)" using Cons.prems(3) by (auto dest: spec [of _ 0])
  have mus: "\<forall>k<length zs. is_mat n m (mus ! (Suc nz + k))"
    using Cons.prems(3) by (auto dest: spec [of _ "Suc k" for k])
  note a = batch_step_inv [OF Cons.prems(1,5,6,7) z mu Cons.prems(4) s]
  have sm: "same_model self self1" using a by simp
  have wf1: "wf_model self1" using Cons.prems(1) sm by (rule wf_model_same)
  have d1: "ens_N self1 = n" "dim_x self1 = d" "dim_z self1 = m"
    using sm Cons.prems(5,6,7) by (simp_all add: same_model_def)
  have X1: "is_mat d n X1" using a by simp
  note b = Cons.IH [OF wf1 zs mus X1 d1 r]
  show ?case
    using a b by (auto intro: same_model_trans hist_step_trans)
qed

subsection \<open>What a successful call of batch_filter leaves\<close>

lemma same_model_allocate: "same_model self (allocate self Z store)"
  by (simp add: allocate_def same_model_def Let_def)

lemma allocate_fields:
  "X_priors (allocate self Z store)
     = (if store then Some (np_empty (length Z) (dim_x self) (ens_N self)) else X_priors self)"
  "X_bars (allocate self Z store)
     = (if store then Some (np_empty (length Z) (dim_x self) (ens_N self)) else X_bars self)"
  "X_bar_priors (allocate self Z store)
     = (if store then Some (np_empty (length Z) (dim_x self) (ens_N self))
        else X_bar_priors self)"
  by (simp_all add: allocate_def Let_def)

lemma batch_filter_Inr:
  assumes "batch_filter env self g Z init_states seed_arg store calc_ll = Inr (out, self', g')"
  shows "\<exists>mus epss X0 g2 g3 X l s4.
      draw_mus env (allocate self Z store) (reseed env (allocate self Z store) g seed_arg) Z
        = Inr (mus, g2)
    \<and> draw_epss env (allocate self Z store) g2 Z = Inr (epss, g3)
    \<and> initial_ensemble env (allocate self Z store) g3 init_states = Inr (X0, g')
    \<and> filter_loop env store calc_ll (np_ones (ens_N self)) (centering (ens_N self)) mus epss 0 Z
          (X0, 0, (allocate self Z store)
                    \<lparr>Xs := Some (np_empty (length Z) (dim_x self) (ens_N self))\<rparr>)
        = Inr (X, l, s4)
    \<and> (if calc_ll then out = LogLik l \<and> self' = s4\<lparr>ll := Some l\<rparr>
        else \<exists>H. Xs s4 = Some H \<and> out = History (rollaxis2 (ens_N self) H) \<and> self' = s4)"
  using assms
  by (auto simp: batch_filter_def Let_def bind_err_def getattr_def
      split: sum.splits prod.splits if_splits option.splits)

lemma wf_sampler_multivariate:
  "wf_sampler env \<Longrightarrow> multivariate env g mean cov (t, n) = Inr (r, g')
    \<Longrightarrow> is_hist t n (length mean) r"
  unfolding wf_sampler_def by blast

lemma wf_sampler_multivariate1:
  "wf_sampler env \<Longrightarrow> multivariate1 env g mean cov n = Inr (M, g')
    \<Longrightarrow> is_mat n (length mean) M"
  unfolding wf_sampler_def by blast

lemma initial_ensemble_shape:
  assumes "wf_model self" "wf_sampler env"
    "pred_option (is_mat (dim_x self) (ens_N self)) init_states"
    "initial_ensemble env self g init_states = Inr (X0, g')"
  shows "is_mat (dim_x self) (ens_N self) X0"
proof -
  have sampled: "is_mat (dim_x self) (ens_N self) (tr M)"
    if "multivariate1 env g (mean_x self) (cov_P self) (ens_N self) = Inr (M, g'')" for M g''
  proof -
    have "is_mat (ens_N self) (length (mean_x self)) M"
      using assms(2) that by (rule wf_sampler_multivariate1)
    then have "is_mat (ens_N self) (dim_x self) M"
      using assms(1) by (simp add: wf_model_def)
    then show ?thesis using assms(1) by (intro is_mat_tr) (simp_all add: wf_model_def)
  qed
  show ?thesis
    using assms(3,4) sampled
    by (auto simp: initial_ensemble_def Let_def bind_err_def
        split: option.splits sum.splits prod.splits if_splits)
qed

lemma draw_mus_shape:
  assumes "wf_sampler env" "draw_mus env self g Z = Inr (mus, g')"
  shows "is_hist (length Z) (ens_N self) (dim_z self) mus"
  using wf_sampler_multivariate [OF assms(1), of g "np_zeros (dim_z self)" "cov_R self"
      "length Z" "ens_N self" mus g'] assms(2)
  by (simp add: draw_mus_def np_zeros_def)

lemma is_hist_nth: "is_hist t d n H \<Longrightarrow> k < t \<Longrightarrow> is_mat d n (H ! k)"
  by (simp add: is_hist_def list_all_length)

lemma batch_filter_post:
  assumes wf: "wf_model self" and ws: "wf_sampler env"
    and Z: "list_all (\<lambda>z. length z = dim_z self) Z"
    and ini: "pred_option (is_mat (dim_x self) (ens_N self)) init_states"
    and run: "batch_filter env self g Z init_states seed_arg store calc_ll = Inr (out, self', g')"
  shows "same_model self self' \<and> (Z \<noteq> [] \<longrightarrow> 2 \<le> ens_N self)
    \<and> (\<exists>H. Xs self' = Some H \<and> is_hist (length Z) (dim_x self) (ens_N self) H
          \<and> (\<not> calc_ll \<longrightarrow> out = History (rollaxis2 (ens_N self) H)))
    \<and> (calc_ll \<longrightarrow> (\<exists>l. out = LogLik l \<and> ll self' = Some l))
    \<and> (store \<longrightarrow> (\<exists>P B C. X_priors self' = Some P \<and> X_bars self' = Some B
                      \<and> X_bar_priors self' = Some C
                      \<and> is_hist (length Z) (dim_x self) (ens_N self) P
                      \<and> is_hist (length Z) (dim_x self) (ens_N self) B
                      \<and> is_hist (length Z) (dim_x self) (ens_N self) C))
    \<and> (\<not> store \<longrightarrow> X_priors self' = X_priors self \<and> X_bars self' = X_bars self
          \<and> X_bar_priors self' = X_bar_priors self)"
proof -
  let ?n = "ens_N self" and ?d = "dim_x self" and ?m = "dim_z self"
  let ?a = "allocate self Z store"
  let ?fresh = "np_empty (length Z) ?d ?n"
  let ?s3 = "?a\<lparr>Xs := Some ?fresh\<rparr>"
  from batch_filter_Inr [OF run] obtain mus epss X0 g2 g3 X l s4 where
    dm: "draw_mus env ?a (reseed env ?a g seed_arg) Z = Inr (mus, g2)"
    and ie: "initial_ensemble env ?a g3 init_states = Inr (X0, g')"
    and lp: "filter_loop env store calc_ll (np_ones ?n) (centering ?n) mus epss 0 Z (X0, 0, ?s3)
             = Inr (X, l, s4)"
    and fin: "if calc_ll then out = LogLik l \<and> self' = s4\<lparr>ll := Some l\<rparr>
              else \<exists>H. Xs s4 = Some H \<and> out = History (rollaxis2 ?n H) \<and> self' = s4"
    by blast
  have sa: "same_model self ?a" by (rule same_model_allocate)
  have s3: "same_model self ?s3" using sa by (simp add: same_model_def)
  have wfa: "wf_model ?a" using wf sa by (rule wf_model_same)
  have wf3: "wf_model ?s3" using wf s3 by (rule wf_model_same)
  have da: "ens_N ?a = ?n" "dim_x ?a = ?d" "dim_z ?a = ?m"
    using sa by (simp_all add: same_model_def)
  have d3: "ens_N ?s3 = ?n" "dim_x ?s3 = ?d" "dim_z ?s3 = ?m"
    using s3 by (simp_all add: same_model_def)
  have mus: "is_hist (length Z) ?n ?m mus"
    using draw_mus_shape [OF ws dm] da by simp
  then have mk: "\<forall>k<length Z. is_mat ?n ?m (mus ! (0 + k))"
    by (simp add: is_hist_nth)
  have X0: "is_mat ?d ?n X0"
    using initial_ensemble_shape [OF wfa ws _ ie] ini da by simp
  note inv = filter_loop_inv [OF wf3 Z mk X0 d3 lp]
  have sm4: "same_model self s4" using s3 inv by (blast intro: same_model_trans)
  have xs3: "Xs ?s3 = Some ?fresh" by simp
  from inv have "hist_step ?d ?n (Some ?fresh) (Xs s4)" by simp
  from hist_step_Some [OF this is_hist_empty] obtain H where
    H: "Xs s4 = Some H" "is_hist (length Z) ?d ?n H" by blast
  have others3: "X_priors ?s3 = X_priors ?a" "X_bars ?s3 = X_bars ?a"
    "X_bar_priors ?s3 = X_bar_priors ?a" by simp_all
  have st: "\<exists>P B C. X_priors s4 = Some P \<and> X_bars s4 = Some B \<and> X_bar_priors s4 = Some C
      \<and> is_hist (length Z) ?d ?n P \<and> is_hist (length Z) ?d ?n B \<and> is_hist (length Z) ?d ?n C"
    if store
  proof -
    have h: "hist_step ?d ?n (Some ?fresh) (X_priors s4)"
      "hist_step ?d ?n (Some ?fresh) (X_bars s4)"
      "hist_step ?d ?n (Some ?fresh) (X_bar_priors s4)"
      using inv that by (simp_all add: others3 allocate_fields)
    show ?thesis
      using hist_step_Some [OF h(1) is_hist_empty] hist_step_Some [OF h(2) is_hist_empty]
        hist_step_Some [OF h(3) is_hist_empty] by blast
  qed
  have nst: "X_priors s4 = X_priors self \<and> X_bars s4 = X_bars self
      \<and> X_bar_priors s4 = X_bar_priors self" if "\<not> store"
    using inv that by (simp add: others3 allocate_fields)
  show ?thesis
  proof (cases calc_ll)
    case True
    then have "out = LogLik l" "self' = s4\<lparr>ll := Some l\<rparr>" using fin by simp_all
    then show ?thesis
      using True sm4 H st nst inv by (auto simp: same_model_def)
  next
    case False
    then have "out = History (rollaxis2 ?n H)" "self' = s4" using fin H by auto
    then show ?thesis
      using False sm4 H st nst inv by auto
  qed
qed

subsection \<open>The returned value\<close>

lemma wf_model_sample_obj: "wf_model sample_obj"
  by (simp add: wf_model_def sample_obj_def half_plus_noise_def observe_all_def)

lemma wf_sampler_sample_env: "wf_sampler sample_env"
  by (auto simp: wf_sampler_def sample_env_def sample_multivariate_def sample_multivariate1_def
      sample_vec_def is_hist_def is_mat_def list_all_iff split: if_splits)

lemma rollaxis2_shape:
  assumes "is_hist t d n H"
  shows "is_hist n t d (rollaxis2 n H)"
  using assms by (simp add: is_hist_def is_mat_def rollaxis2_def list_all_iff)


lemma rollaxis2_last:
  assumes "H \<noteq> []" "k < n"
  shows "last (rollaxis2 n H ! k) = col (last H) k"
  using assms by (simp add: rollaxis2_def last_map col_def)

lemma is_hist_last: "is_hist t d n H \<Longrightarrow> H \<noteq> [] \<Longrightarrow> is_mat d n (last H)"
  by (simp add: is_hist_def list_all_iff)

lemma rts_spec_shape:
  assumes xs: "is_hist t d n xs" and pri: "is_hist t d n priors" and bars: "is_hist t d n bars"
    and ne: "xs \<noteq> []" and d: "0 < d"
  shows "is_mat d n (rts_spec tinv xs priors bars bar_priors i)"
proof (induction "length xs - Suc i" arbitrary: i)
  case 0
  then have "length xs \<le> Suc i" by simp
  then have "rts_spec tinv xs priors bars bar_priors i = last xs"
    by (subst rts_spec.simps) simp
  then show ?case using is_hist_last [OF xs ne] by simp
next
  case (Suc k)
  have t: "length xs = t" using xs by (simp add: is_hist_def)
  have i: "Suc i < t" using Suc.hyps(2) t by simp
  let ?rec = "rts_spec tinv xs priors bars bar_priors (Suc i)"
  let ?J = "matmul (bars ! i) (tinv (bar_priors ! Suc i))"
  have e: "rts_spec tinv xs priors bars bar_priors i
           = mat_add (xs ! i) (matmul ?J (mat_sub ?rec (priors ! Suc i)))"
    using i t by (subst rts_spec.simps) simp
  have r: "is_mat d n ?rec" using Suc.hyps(2) by (intro Suc.hyps(1)) simp
  have M: "is_mat d n (mat_sub ?rec (priors ! Suc i))"
    using r is_hist_nth [OF pri i] by (rule is_mat_sub)
  have X: "is_mat d n (xs ! i)" using i by (intro is_hist_nth [OF xs]) simp
  have J: "length ?J = d"
    using is_hist_nth [OF bars, of i] i by (simp add: is_mat_length)
  show ?case unfolding e using X M d J by (rule updated_shape)
qed








subsection \<open>Filter, then smoother\<close>

text \<open>
  C3: after a call of \<^verbatim>\<open>batch_filter\<close> with \<^verbatim>\<open>store=True\<close> on at least one observation that
  returns, \<^verbatim>\<open>rts_smoother\<close> returns; the smoothed history \<^verbatim>\<open>Ss\<close> has the shape
  \<open>T \<times> D \<times> N\<close> of the filter's history \<^verbatim>\<open>Xs\<close>, its last entry is the last entry of \<^verbatim>\<open>Xs\<close>,
  and so are the last entries along the time axis of the rolled arrays that the two calls
  return.
\<close>
theorem smoothed_history_same_shape_same_last:
  assumes "wf_model self" "wf_sampler env"
    and "list_all (\<lambda>z. length z = dim_z self) Z"
    and "pred_option (is_mat (dim_x self) (ens_N self)) init_states"
    and "Z \<noteq> []"
    and "batch_filter env self g Z init_states seed_arg True calc_ll = Inr (out, self', g')"
  shows "\<exists>xs ss.
      Xs self' = Some xs
    \<and> is_hist (length Z) (dim_x self) (ens_N self) xs
    \<and> rts_smoother tinv self' means covs rcond
        = Inr (rollaxis2 (ens_N self) ss, self'\<lparr>Ss := Some ss\<rparr>)
    \<and> is_hist (length Z) (dim_x self) (ens_N self) ss
    \<and> last ss = last xs
    \<and> is_hist (ens_N self) (length Z) (dim_x self) (rollaxis2 (ens_N self) ss)
    \<and> (\<forall>k<ens_N self.
          last (rollaxis2 (ens_N self) ss ! k) = last (rollaxis2 (ens_N self) xs ! k))"
proof -
  let ?t = "length Z" and ?d = "dim_x self" and ?n = "ens_N self"
  from batch_filter_post [OF assms(1-4,6)] obtain xs P B C where
    sm: "same_model self self'"
    and xs: "Xs self' = Some xs" "is_hist ?t ?d ?n xs"
    and h: "X_priors self' = Some P" "X_bars self' = Some B" "X_bar_priors self' = Some C"
      "is_hist ?t ?d ?n P" "is_hist ?t ?d ?n B" "is_hist ?t ?d ?n C"
    by auto
  have len: "length xs = ?t" "length P = ?t" "length B = ?t" "length C = ?t"
    using xs(2) h(4,5,6) by (simp_all add: is_hist_def)
  have ne: "xs \<noteq> []" using len(1) assms(5) by auto
  have d: "0 < ?d" using assms(1) by (simp add: wf_model_def)
  have n: "ens_N self' = ?n" using sm by (simp add: same_model_def)
  let ?f = "rts_spec tinv xs P B C"
  let ?ss = "map ?f [0..<length xs]"
  have r: "rts_smoother tinv self' means covs rcond
           = Inr (rollaxis2 ?n ?ss, self'\<lparr>Ss := Some ?ss\<rparr>)"
    using rts_smoother_history [OF xs(1) h(1,2,3) _ _ _ ne, of tinv means covs rcond] len n
    by simp
  have sh: "is_hist ?t ?d ?n ?ss"
    using rts_spec_shape [OF xs(2) h(4,5) ne d, of tinv C] len(1)
    by (simp add: is_hist_def list_all_iff)
  have "length xs \<le> Suc (length xs - 1)" by arith
  then have "?f (length xs - 1) = last xs"
    by (subst rts_spec.simps) simp
  then have la: "last ?ss = last xs"
    using ne by (simp add: last_conv_nth)
  have ssne: "?ss \<noteq> []" using ne by simp
  have rl: "\<forall>k<?n. last (rollaxis2 ?n ?ss ! k) = last (rollaxis2 ?n xs ! k)"
    using rollaxis2_last [OF ssne] rollaxis2_last [OF ne] la by simp
  show ?thesis
    using xs r sh la rl rollaxis2_shape [OF sh] by blast
qed

theorem smoothed_history_same_shape_same_last_witness:
  "batch_filter sample_env sample_obj 0 [[1], [2]] None None True False
     = Inr (History [[[6 / 17], [1363 / 1227]], [[9 / 17], [5236 / 3681]]], sample_stored, 10)
   \<and> Xs sample_stored = Some [[[6 / 17, 9 / 17]], [[1363 / 1227, 5236 / 3681]]]
   \<and> rts_smoother pinv_rows sample_stored None None (1 / 10 ^ 14)
     = Inr ([[[140 / 409], [1363 / 1227]], [[482 / 1227], [5236 / 3681]]],
            sample_stored\<lparr>Ss := Some [[[140 / 409, 482 / 1227]], [[1363 / 1227, 5236 / 3681]]]\<rparr>)
   \<and> (\<exists>ss. rts_smoother pinv_rows sample_stored None None (1 / 10 ^ 14)
              = Inr (rollaxis2 2 ss, sample_stored\<lparr>Ss := Some ss\<rparr>)
          \<and> is_hist 2 1 2 ss
          \<and> last ss = last [[[6 / 17, 9 / 17]], [[1363 / 1227, 5236 / 3681 :: real]]])"
proof -
  have z: "list_all (\<lambda>z. length z = dim_z sample_obj) [[1], [2]]"
    and i: "pred_option (is_mat (dim_x sample_obj) (ens_N sample_obj)) None"
    and ne: "[[1], [2 :: real]] \<noteq> []"
    by (simp_all add: sample_obj_def)
  have x: "Xs sample_stored = Some [[[6 / 17, 9 / 17]], [[1363 / 1227, 5236 / 3681]]]"
    by (simp add: sample_stored_def)
  have d: "ens_N sample_obj = 2" "dim_x sample_obj = 1" by (simp_all add: sample_obj_def)
  from smoothed_history_same_shape_same_last
      [OF wf_model_sample_obj wf_sampler_sample_env z i ne sample_run_stored,
       of pinv_rows None None "1 / 10 ^ 14"]
  have "\<exists>ss. rts_smoother pinv_rows sample_stored None None (1 / 10 ^ 14)
              = Inr (rollaxis2 2 ss, sample_stored\<lparr>Ss := Some ss\<rparr>)
          \<and> is_hist 2 1 2 ss
          \<and> last ss = last [[[6 / 17, 9 / 17]], [[1363 / 1227, 5236 / 3681 :: real]]]"
    unfolding d x by (auto simp: numeral_2_eq_2)
  with sample_run_stored x sample_smooth_stored show ?thesis by blast
qed

subsection \<open>Missing history\<close>

lemma sample_run_unstored2:
  "batch_filter sample_env sample_obj 0 [[1], [2]] None None False False
   = Inr (History [[[6 / 17], [1363 / 1227]], [[9 / 17], [5236 / 3681]]], sample_unstored2, 10)"
  by (simp add: sample_unstored2_def filter_defs step_defs sample_defs mat_defs num_defs
      cong: bind_err_weak_cong let_weak_cong)

lemma rts_smoother_no_Xs:
  "Xs self = None \<Longrightarrow> rts_smoother tinv self means covs rcond = Inl AttributeError"
  by (simp add: rts_smoother_def getattr_def)

lemma rts_smoother_no_X_bars:
  assumes "Xs self = Some xs" "2 \<le> length xs" "X_bars self = None"
  shows "rts_smoother tinv self means covs rcond = Inl AttributeError"
proof -
  obtain k where k: "length xs - 1 = Suc k" using assms(2) by (cases "length xs - 1") auto
  have ne: "xs \<noteq> []" using assms(2) by auto
  show ?thesis
    using assms(1,3) ne k
    by (simp add: rts_smoother_def getattr_def index_last_def smoother_step_def)
qed

lemma rts_smoother_single:
  "Xs self = Some [X] \<Longrightarrow>
   rts_smoother tinv self means covs rcond
     = Inr (rollaxis2 (ens_N self) [X], self\<lparr>Ss := Some [X]\<rparr>)"
  by (simp add: rts_smoother_def getattr_def index_last_def)

text \<open>
  C7 as the code has it. \<^verbatim>\<open>rts_smoother\<close> makes no check of its own. On an object on which
  \<^verbatim>\<open>batch_filter\<close> never ran, the first statement fails with \<^verbatim>\<open>AttributeError\<close>. After a
  returning call of \<^verbatim>\<open>batch_filter\<close> without \<^verbatim>\<open>store\<close> on an object that had no
  \<^verbatim>\<open>X_bars\<close>, the smoother fails with \<^verbatim>\<open>AttributeError\<close> in its first pass of the loop when
  there are two observations or more, before any gain is computed; with one observation
  the loop has no pass and the smoother returns the rolled filter history.
\<close>
theorem rts_smoother_without_stored_history:
  assumes "wf_model self" "wf_sampler env"
    and "list_all (\<lambda>z. length z = dim_z self) Z"
    and "pred_option (is_mat (dim_x self) (ens_N self)) init_states"
    and "X_bars self = None"
    and "batch_filter env self g Z init_states seed_arg False calc_ll = Inr (out, self', g')"
  shows "(2 \<le> length Z \<longrightarrow> rts_smoother tinv self' means covs rcond = Inl AttributeError)
    \<and> (length Z = 1 \<longrightarrow>
         (\<exists>X. Xs self' = Some [X]
            \<and> rts_smoother tinv self' means covs rcond
                = Inr (rollaxis2 (ens_N self) [X], self'\<lparr>Ss := Some [X]\<rparr>)))
    \<and> (\<forall>fresh. Xs fresh = None \<longrightarrow>
          rts_smoother tinv fresh means covs rcond = Inl AttributeError)"
proof -
  from batch_filter_post [OF assms(1-4,6)] obtain H where
    sm: "same_model self self'"
    and H: "Xs self' = Some H" "is_hist (length Z) (dim_x self) (ens_N self) H"
    and b: "X_bars self' = X_bars self"
    by auto
  have len: "length H = length Z" using H(2) by (simp add: is_hist_def)
  have n: "ens_N self' = ens_N self" using sm by (simp add: same_model_def)
  have a: "rts_smoother tinv self' means covs rcond = Inl AttributeError" if "2 \<le> length Z"
    using H(1) _ _ 
    by (rule rts_smoother_no_X_bars) (use that len b assms(5) in simp_all)
  have c: "\<exists>X. Xs self' = Some [X]
      \<and> rts_smoother tinv self' means covs rcond
          = Inr (rollaxis2 (ens_N self) [X], self'\<lparr>Ss := Some [X]\<rparr>)" if "length Z = 1"
  proof -
    have "length H = Suc 0" using that len by simp
    then obtain X where X: "H = [X]" by (auto simp: length_Suc_conv)
    show ?thesis
      using rts_smoother_single [of self' X tinv means covs rcond] H(1) X n by auto
  qed
  show ?thesis using a c rts_smoother_no_Xs by blast
qed

theorem rts_smoother_without_stored_history_witness:
  "batch_filter sample_env sample_obj 0 [[1], [2]] None None False False
     = Inr (History [[[6 / 17], [1363 / 1227]], [[9 / 17], [5236 / 3681]]], sample_unstored2, 10)
   \<and> X_bars sample_obj = None
   \<and> rts_smoother pinv_rows sample_unstored2 None None (1 / 10 ^ 14) = Inl AttributeError"
proof -
  have z: "list_all (\<lambda>z. length z = dim_z sample_obj) [[1], [2]]"
    and i: "pred_option (is_mat (dim_x sample_obj) (ens_N sample_obj)) None"
    and b: "X_bars sample_obj = None"
    by (simp_all add: sample_obj_def)
  from rts_smoother_without_stored_history
      [OF wf_model_sample_obj wf_sampler_sample_env z i b sample_run_unstored2,
       of pinv_rows None None "1 / 10 ^ 14"]
  have "rts_smoother pinv_rows sample_unstored2 None None (1 / 10 ^ 14) = Inl AttributeError"
    by simp
  with sample_run_unstored2 b show ?thesis by blast
qed

theorem smoother_returns_without_stored_history:
  "batch_filter sample_env sample_obj 0 [[1]] None None False False
     = Inr (History [[[22 / 17]], [[25 / 17]]], sample_unstored, 6)
   \<and> X_priors sample_unstored = None \<and> X_bars sample_unstored = None
   \<and> X_bar_priors sample_unstored = None
   \<and> rts_smoother pinv_rows sample_unstored None None (1 / 10 ^ 14)
     = Inr ([[[22 / 17]], [[25 / 17]]], sample_unstored\<lparr>Ss := Some [[[22 / 17, 25 / 17]]]\<rparr>)"
  using sample_run_unstored sample_smooth_unstored
  by (simp add: sample_unstored_def sample_obj_def)

subsection \<open>How the time loop can fail\<close>





lemma nl_inv_Inl: "nl_inv A = Inl e \<Longrightarrow> e = LinAlgError"
  by (auto simp: nl_inv_def Let_def split: if_splits)


lemma batch_step_Inl:
  assumes "batch_step env store calc_ll I1 I2 mus epss nz z (X, l, self) = Inl e"
  shows "enkf_update (ens_N self) (cov_R self) I1 I2 z (mus ! nz) (predict self (epss ! nz) X)
             (tr (o_func self (tr (predict self (epss ! nz) X)))) = Inl e"
  using assms
  by (auto simp: batch_step_def Let_def bind_err_def split: sum.splits prod.splits if_splits)

lemma run_setup_shapes:
  assumes wf: "wf_model self" and ws: "wf_sampler env"
    and ini: "pred_option (is_mat (dim_x self) (ens_N self)) init_states"
    and dm: "draw_mus env (allocate self Z store) g1 Z = Inr (mus, g2)"
    and ie: "initial_ensemble env (allocate self Z store) g3 init_states = Inr (X0, g4)"
    and s3: "s3 = (allocate self Z store)\<lparr>Xs := Some (np_empty (length Z) (dim_x self) (ens_N self))\<rparr>"
  shows "wf_model s3 \<and> same_model self s3
    \<and> ens_N s3 = ens_N self \<and> dim_x s3 = dim_x self \<and> dim_z s3 = dim_z self
    \<and> (\<forall>k<length Z. is_mat (ens_N self) (dim_z self) (mus ! k))
    \<and> is_mat (dim_x self) (ens_N self) X0
    \<and> Xs s3 = Some (np_empty (length Z) (dim_x self) (ens_N self))"
proof -
  let ?a = "allocate self Z store"
  have sa: "same_model self ?a" by (rule same_model_allocate)
  have sm: "same_model self s3" using sa s3 by (simp add: same_model_def)
  have wfa: "wf_model ?a" using wf sa by (rule wf_model_same)
  have wf3: "wf_model s3" using wf sm by (rule wf_model_same)
  have da: "ens_N ?a = ens_N self" "dim_x ?a = dim_x self" "dim_z ?a = dim_z self"
    using sa by (simp_all add: same_model_def)
  have "is_hist (length Z) (ens_N self) (dim_z self) mus"
    using draw_mus_shape [OF ws dm] da by simp
  then have mk: "\<forall>k<length Z. is_mat (ens_N self) (dim_z self) (mus ! k)"
    by (simp add: is_hist_nth)
  have X0: "is_mat (dim_x self) (ens_N self) X0"
    using initial_ensemble_shape [OF wfa ws _ ie] ini da by simp
  show ?thesis using wf3 sm mk X0 s3 by (simp add: same_model_def)
qed

lemma batch_filter_of_loop:
  assumes "draw_mus env (allocate self Z store) (reseed env (allocate self Z store) g seed_arg) Z
           = Inr (mus, g2)"
    and "draw_epss env (allocate self Z store) g2 Z = Inr (epss, g3)"
    and "initial_ensemble env (allocate self Z store) g3 init_states = Inr (X0, g4)"
  shows "batch_filter env self g Z init_states seed_arg store calc_ll
    = bind_err (filter_loop env store calc_ll (np_ones (ens_N self)) (centering (ens_N self))
                  mus epss 0 Z
                  (X0, 0, (allocate self Z store)
                            \<lparr>Xs := Some (np_empty (length Z) (dim_x self) (ens_N self))\<rparr>))
        (\<lambda>(X', ll', self4).
           if calc_ll then Inr (LogLik ll', self4\<lparr>ll := Some ll'\<rparr>, g4)
           else bind_err (getattr (Xs self4)) (\<lambda>H.
                  Inr (History (rollaxis2 (ens_N self) H), self4, g4)))"
  using assms by (simp add: batch_filter_def Let_def)



lemma wf_model_sample_obj1: "wf_model sample_obj1"
  using wf_model_sample_obj
  by (simp add: wf_model_def sample_obj1_def sample_obj_def half_plus_noise_def
      observe_all_def)

lemma filter_loop_Inl:
  "wf_model self \<Longrightarrow> list_all (\<lambda>z. length z = m) zs
    \<Longrightarrow> \<forall>k<length zs. is_mat n m (mus ! (nz + k))
    \<Longrightarrow> is_mat d n X
    \<Longrightarrow> ens_N self = n \<Longrightarrow> dim_x self = d \<Longrightarrow> dim_z self = m \<Longrightarrow> 2 \<le> n
    \<Longrightarrow> filter_loop env store calc_ll (np_ones n) (centering n) mus epss nz zs (X, l, self)
          = Inl e
    \<Longrightarrow> e = LinAlgError"
proof (induction zs arbitrary: nz X l self)
  case Nil
  then show ?case by simp
next
  case (Cons z zs)
  have z: "length z = m" and zs: "list_all (\<lambda>z. length z = m) zs"
    using Cons.prems(2) by simp_all
  have mu: "is_mat n m (mus ! nz)" using Cons.prems(3) by (auto dest: spec [of _ 0])
  have mus: "\<forall>k<length zs. is_mat n m (mus ! (Suc nz + k))"
    using Cons.prems(3) by (auto dest: spec [of _ "Suc k" for k])
  let ?X1 = "predict self (epss ! nz) X"
  let ?Y = "tr (o_func self (tr ?X1))"
  show ?case
  proof (cases "batch_step env store calc_ll (np_ones n) (centering n) mus epss nz z (X, l, self)")
    case (Inl e')
    then have e: "e' = e" using Cons.prems(9) by (simp add: bind_err_def)
    have pos: "0 < m" using Cons.prems(1,7) by (simp add: wf_model_def)
    have X1: "is_mat d n ?X1" using Cons.prems(1,4) by (rule is_mat_predict)
    have Y: "is_mat m n ?Y"
      using observed_shape [OF Cons.prems(1), of ?X1] X1 Cons.prems(5,6,7) by simp
    from batch_step_Inl [OF Inl]
    have "enkf_update n (cov_R self) (np_ones n) (centering n) z (mus ! nz) ?X1 ?Y = Inl e"
      using e Cons.prems(5) by simp
    then obtain M where "nl_inv M = Inl e"
      by (auto simp: enkf_update_eq [OF X1 Y pos Cons.prems(8)] bind_err_def split: sum.splits)
    then show ?thesis by (rule nl_inv_Inl)
  next
    case (Inr st)
    obtain X1 l1 self1 where st: "st = (X1, l1, self1)" by (cases st) auto
    note s = Inr [unfolded st]
    have r: "filter_loop env store calc_ll (np_ones n) (centering n) mus epss (Suc nz) zs
              (X1, l1, self1) = Inl e"
      using Cons.prems(9) s by (simp add: bind_err_def)
    note a = batch_step_inv [OF Cons.prems(1,5,6,7) z mu Cons.prems(4) s]
    have sm: "same_model self self1" using a by simp
    have wf1: "wf_model self1" using Cons.prems(1) sm by (rule wf_model_same)
    have d1: "ens_N self1 = n" "dim_x self1 = d" "dim_z self1 = m"
      using sm Cons.prems(5,6,7) by (simp_all add: same_model_def)
    have X1: "is_mat d n X1" using a by simp
    show ?thesis by (rule Cons.IH [OF wf1 zs mus X1 d1 Cons.prems(8) r])
  qed
qed

lemma batch_step_one_member:
  assumes wf: "wf_model self" and n: "ens_N self = 1" and X: "is_mat (dim_x self) 1 X"
  shows "batch_step env store calc_ll I1 I2 mus epss nz z (X, l, self) = Inl FloatNaN"
proof -
  let ?X1 = "predict self (epss ! nz) X"
  let ?Y = "tr (o_func self (tr ?X1))"
  have pos: "0 < dim_z self" using wf by (simp add: wf_model_def)
  have X1: "is_mat (dim_x self) (ens_N self) ?X1"
    using is_mat_predict [OF wf X] n by simp
  have "is_mat (dim_z self) 1 ?Y" using observed_shape [OF wf X1] n by simp
  then have "np_cov ?Y = Inl FloatNaN" using pos by (rule np_cov_one_column) simp
  then show ?thesis by (simp add: batch_step_def enkf_update_def Let_def)
qed

subsection \<open>The ensemble size\<close>

text \<open>
  C8 as the code has it. Neither the constructor nor \<^verbatim>\<open>batch_filter\<close> looks at \<open>N\<close>: the
  constructor gives an object for every \<open>N\<close>, and once the sampler has returned its three
  draws, a call on an empty sequence of observations returns, whatever \<open>N\<close> is. With one
  member and an observation, the first pass of the loop reaches \<^verbatim>\<open>np.cov\<close> on a single
  column, the division by \<open>N - 1 = 0\<close> for which numpy gives NaN and raises nothing; the
  model stops there. With two members or more no pass reaches that division: the call
  returns, or it raises \<^verbatim>\<open>LinAlgError\<close> in the inversion.
\<close>
theorem ensemble_size_is_not_validated:
  assumes "wf_model self" "wf_sampler env"
    and "list_all (\<lambda>z. length z = dim_z self) Z"
    and "pred_option (is_mat (dim_x self) (ens_N self)) init_states"
    and "a = allocate self Z store"
    and "draw_mus env a (reseed env a g seed_arg) Z = Inr (mus, g2)"
    and "draw_epss env a g2 Z = Inr (epss, g3)"
    and "initial_ensemble env a g3 init_states = Inr (X0, g4)"
  shows "(\<exists>obj. TEnKF_init N (Some d) (Some m) fx hx sd = Inr obj \<and> ens_N obj = N)
    \<and> (Z = [] \<longrightarrow>
         (\<exists>self'. batch_filter env self g Z init_states seed_arg store calc_ll
            = Inr (if calc_ll then LogLik 0 else History (rollaxis2 (ens_N self) []), self', g4)))
    \<and> (ens_N self = 1 \<and> Z \<noteq> [] \<longrightarrow>
         batch_filter env self g Z init_states seed_arg store calc_ll = Inl FloatNaN)
    \<and> (2 \<le> ens_N self \<longrightarrow>
         (\<exists>r. batch_filter env self g Z init_states seed_arg store calc_ll = Inr r)
         \<or> batch_filter env self g Z init_states seed_arg store calc_ll = Inl LinAlgError)"
proof -
  let ?n = "ens_N self" and ?m = "dim_z self" and ?d = "dim_x self"
  let ?I1 = "np_ones ?n" and ?I2 = "centering ?n"
  let ?s3 = "(allocate self Z store)\<lparr>Xs := Some (np_empty (length Z) ?d ?n)\<rparr>"
  let ?bf = "batch_filter env self g Z init_states seed_arg store calc_ll"
  note su = run_setup_shapes [OF assms(1,2,4) assms(6) [unfolded assms(5)]
      assms(8) [unfolded assms(5)] refl]
  have wf3: "wf_model ?s3" and sm3: "same_model self ?s3"
    and d3: "ens_N ?s3 = ?n" "dim_x ?s3 = ?d" "dim_z ?s3 = ?m"
    and mk: "\<forall>k<length Z. is_mat ?n ?m (mus ! k)" and X0: "is_mat ?d ?n X0"
    and Xs3: "Xs ?s3 = Some (np_empty (length Z) ?d ?n)"
    using su by simp_all
  have mk0: "\<forall>k<length Z. is_mat ?n ?m (mus ! (0 + k))" using mk by simp
  note bf = batch_filter_of_loop [OF assms(6-8) [unfolded assms(5)], of calc_ll]
  have c: "\<exists>obj. TEnKF_init N (Some d) (Some m) fx hx sd = Inr obj \<and> ens_N obj = N"
    by (simp add: TEnKF_init_def)
  have e: "\<exists>self'. ?bf
      = Inr (if calc_ll then LogLik 0 else History (rollaxis2 ?n []), self', g4)" if "Z = []"
    unfolding bf using that by (simp add: np_empty_def getattr_def)
  have o: "?bf = Inl FloatNaN" if one: "?n = 1" and ne: "Z \<noteq> []"
  proof -
    obtain z zs where Z: "Z = z # zs" using ne by (cases Z) auto
    have X: "is_mat (dim_x ?s3) 1 X0" using X0 one d3 by simp
    have "batch_step env store calc_ll ?I1 ?I2 mus epss 0 z (X0, 0, ?s3) = Inl FloatNaN"
      using wf3 _ X by (rule batch_step_one_member) (use d3 one in simp)
    then have "filter_loop env store calc_ll ?I1 ?I2 mus epss 0 Z (X0, 0, ?s3) = Inl FloatNaN"
      by (simp add: Z)
    then show ?thesis by (simp add: bf)
  qed
  have t: "(\<exists>r. ?bf = Inr r) \<or> ?bf = Inl LinAlgError" if n2: "2 \<le> ?n"
  proof (cases "filter_loop env store calc_ll ?I1 ?I2 mus epss 0 Z (X0, 0, ?s3)")
    case (Inl e)
    have "e = LinAlgError"
      by (rule filter_loop_Inl [OF wf3 assms(3) mk0 X0 d3 n2 Inl])
    then show ?thesis using Inl by (simp add: bf)
  next
    case (Inr st)
    obtain X' l' s' where st: "st = (X', l', s')" by (cases st) auto
    note inv = filter_loop_inv [OF wf3 assms(3) mk0 X0 d3 Inr [unfolded st]]
    have "hist_step ?d ?n (Some (np_empty (length Z) ?d ?n)) (Xs s')"
      using inv Xs3 by simp
    from hist_step_Some [OF this is_hist_empty] obtain h where "Xs s' = Some h" by blast
    then show ?thesis using Inr st by (simp add: bf getattr_def)
  qed
  show ?thesis using c e o t by blast
qed

theorem ensemble_size_is_not_validated_witness:
  "TEnKF_init 1 (Some 1) (Some 1) half_plus_noise observe_all None = Inr sample_obj1
   \<and> ens_N sample_obj1 = 1
   \<and> (\<exists>self'. batch_filter sample_env sample_obj1 0 [] None None False False
         = Inr (History [[]], self', 1))
   \<and> batch_filter sample_env sample_obj1 0 [[1]] None None False False = Inl FloatNaN
   \<and> ens_N sample_obj = 2
   \<and> batch_filter sample_env sample_obj 0 [[1], [2]] None None False False
     = Inr (History [[[6 / 17], [1363 / 1227]], [[9 / 17], [5236 / 3681]]], sample_unstored2, 10)"
proof -
  have ws: "wf_sampler sample_env" by (rule wf_sampler_sample_env)
  have ini: "pred_option (is_mat (dim_x s) (ens_N s)) None" for s by simp
  have c: "TEnKF_init 1 (Some 1) (Some 1) half_plus_noise observe_all None = Inr sample_obj1"
    by (simp add: TEnKF_init_def sample_obj1_def sample_obj_def np_eye_def np_zeros_def num_defs)
  have n1: "ens_N sample_obj1 = 1" by (simp add: sample_obj1_def)
  have n2: "ens_N sample_obj = 2" by (simp add: sample_obj_def)
  \<comment> \<open>one member, no observation\<close>
  let ?a0 = "allocate sample_obj1 [] False"
  have z0: "list_all (\<lambda>z. length z = dim_z sample_obj1) []" by simp
  have dm0: "draw_mus sample_env ?a0 (reseed sample_env ?a0 0 None) [] = Inr ([], 0)"
    by (simp add: sample_obj1_def filter_defs sample_defs mat_defs num_defs)
  have de0: "draw_epss sample_env ?a0 0 [] = Inr ([], 0)"
    by (simp add: sample_obj1_def filter_defs sample_defs mat_defs num_defs)
  have ie0: "initial_ensemble sample_env ?a0 0 None = Inr ([[- 1]], 1)"
    by (simp add: sample_obj1_def filter_defs sample_defs mat_defs num_defs
        cong: bind_err_weak_cong let_weak_cong)
  have r0: "rollaxis2 (ens_N sample_obj1) [] = [[]]"
    by (simp add: sample_obj1_def rollaxis2_def num_defs)
  from ensemble_size_is_not_validated
      [OF wf_model_sample_obj1 ws z0 ini refl dm0 de0 ie0, of _ _ _ _ _ _ False]
  have e: "\<exists>self'. batch_filter sample_env sample_obj1 0 [] None None False False
         = Inr (History [[]], self', 1)"
    by (simp add: r0)
  \<comment> \<open>one member, one observation\<close>
  let ?a1 = "allocate sample_obj1 [[1]] False"
  have z1: "list_all (\<lambda>z. length z = dim_z sample_obj1) [[1]]"
    by (simp add: sample_obj1_def sample_obj_def)
  have dm1: "draw_mus sample_env ?a1 (reseed sample_env ?a1 0 None) [[1]] = Inr ([[[- 1]]], 1)"
    by (simp add: sample_obj1_def filter_defs sample_defs mat_defs num_defs)
  have de1: "draw_epss sample_env ?a1 1 [[1]] = Inr ([[[0]]], 2)"
    by (simp add: sample_obj1_def filter_defs sample_defs mat_defs num_defs)
  have ie1: "initial_ensemble sample_env ?a1 2 None = Inr ([[1]], 3)"
    by (simp add: sample_obj1_def filter_defs sample_defs mat_defs num_defs
        cong: bind_err_weak_cong let_weak_cong)
  from ensemble_size_is_not_validated
      [OF wf_model_sample_obj1 ws z1 ini refl dm1 de1 ie1, of _ _ _ _ _ _ False]
  have o: "batch_filter sample_env sample_obj1 0 [[1]] None None False False = Inl FloatNaN"
    by (simp add: n1)
  \<comment> \<open>two members, two observations\<close>
  let ?Z = "[[1], [2]] :: mat"
  let ?mus = "[[[- 1], [0]], [[1], [2]]] :: mat list"
  let ?a = "allocate sample_obj ?Z False"
  have z: "list_all (\<lambda>z. length z = dim_z sample_obj) ?Z" by (simp add: sample_obj_def)
  have dm: "draw_mus sample_env ?a (reseed sample_env ?a 0 None) ?Z = Inr (?mus, 4)"
    by (simp add: filter_defs sample_defs mat_defs num_defs)
  have de: "draw_epss sample_env ?a 4 ?Z = Inr (?mus, 8)"
    by (simp add: filter_defs sample_defs mat_defs num_defs)
  have ie: "initial_ensemble sample_env ?a 8 None = Inr ([[- 1, 0]], 10)"
    by (simp add: filter_defs sample_defs mat_defs num_defs
        cong: bind_err_weak_cong let_weak_cong)
  from ensemble_size_is_not_validated
      [OF wf_model_sample_obj ws z ini refl dm de ie, of _ _ _ _ _ _ False]
  have t: "(\<exists>r. batch_filter sample_env sample_obj 0 ?Z None None False False = Inr r)
      \<or> batch_filter sample_env sample_obj 0 ?Z None None False False = Inl LinAlgError"
    by (simp add: n2)
  from c n1 e o n2 t sample_run_unstored2 show ?thesis by blast
qed

theorem one_member_filter_constructed_and_run:
  "TEnKF_init 1 (Some 1) (Some 1) half_plus_noise observe_all None = Inr sample_obj1
   \<and> ens_N sample_obj1 = 1
   \<and> batch_filter sample_env sample_obj1 0 [] None None False False
     = Inr (History [[]], sample_obj1\<lparr>obs_Z := Some [], Xs := Some []\<rparr>, 1)"
  by (simp add: TEnKF_init_def sample_obj1_def sample_obj_def filter_defs step_defs sample_defs
      mat_defs num_defs cong: bind_err_weak_cong let_weak_cong)

subsection \<open>A singular innovation covariance\<close>




end
